theory Spec2Isabelle
  imports Main
begin

unbundle bit_operations_syntax

section \<open>Strings\<close>

text \<open>
  The statement file is opened with \<open>encoding="latin1"\<close>, so every character of every
  string the parser handles is a code point below 256.  A \<^typ>\<open>char\<close> stands for that code
  point, a \<^typ>\<open>string\<close> for a Python \<open>str\<close>; characters outside ASCII are written with
  their code (\<open>CHR 0xDC\<close> is the capital U with diaeresis).
\<close>

definition code_point :: "char \<Rightarrow> int" where
  "code_point c = of_char c"

text \<open>\<open>str.isspace\<close> on Latin-1, which is also what \<open>str.strip()\<close> removes and what the
  regular expression class \<open>\s\<close> accepts.\<close>

definition is_space :: "char \<Rightarrow> bool" where
  "is_space c = (let n = code_point c in
     (9 \<le> n \<and> n \<le> 13) \<or> (28 \<le> n \<and> n \<le> 32) \<or> n = 133 \<or> n = 160)"

text \<open>The class \<open>\d\<close> (decimal digits; on Latin-1 only the ASCII ones).\<close>

definition is_digit :: "char \<Rightarrow> bool" where
  "is_digit c = (let n = code_point c in 48 \<le> n \<and> n \<le> 57)"

text \<open>The class \<open>[A-Z]\<close>.\<close>

definition is_upper :: "char \<Rightarrow> bool" where
  "is_upper c = (let n = code_point c in 65 \<le> n \<and> n \<le> 90)"

text \<open>The class \<open>\w\<close> on Latin-1: alphanumeric characters and the underscore.\<close>

definition is_word :: "char \<Rightarrow> bool" where
  "is_word c = (let n = code_point c in
     (48 \<le> n \<and> n \<le> 57) \<or> (65 \<le> n \<and> n \<le> 90) \<or> n = 95 \<or> (97 \<le> n \<and> n \<le> 122) \<or>
     n = 170 \<or> n = 178 \<or> n = 179 \<or> n = 181 \<or> n = 185 \<or> n = 186 \<or>
     (188 \<le> n \<and> n \<le> 190) \<or> (192 \<le> n \<and> n \<le> 214) \<or> (216 \<le> n \<and> n \<le> 246) \<or>
     (248 \<le> n \<and> n \<le> 255))"

text \<open>\<open>s.strip()\<close>\<close>

definition strip :: "string \<Rightarrow> string" where
  "strip s = rev (dropWhile is_space (rev (dropWhile is_space s)))"

text \<open>\<open>s.endswith(suffix)\<close>\<close>

definition endswith :: "string \<Rightarrow> string \<Rightarrow> bool" where
  "endswith s suffix =
     (length suffix \<le> length s \<and> drop (length s - length suffix) s = suffix)"

text \<open>\<open>needle in haystack\<close>\<close>

definition contains :: "string \<Rightarrow> string \<Rightarrow> bool" where
  "contains haystack needle =
     list_ex (\<lambda>i. take (length needle) (drop i haystack) = needle) [0..<Suc (length haystack)]"

text \<open>\<open>s.replace(old, new)\<close> for a single character \<open>old\<close>, the only form the parser uses.\<close>

definition replace_char :: "char \<Rightarrow> string \<Rightarrow> string \<Rightarrow> string" where
  "replace_char old new s = concat (map (\<lambda>c. if c = old then new else [c]) s)"

section \<open>Line normalizer\<close>

text \<open>
  \<^verbatim>\<open>
  def remove_superfluous_reference_whitespace(value):
      i = 53
      while i < len(value):
          if value[i] == " ":
              value = value[:i] + value[i + 1 :]
          i += 54
      return value
  \<close>
  The loop carries \<open>i\<close> and \<open>value\<close>; the index grows by 54 and the string loses at most
  one character per round.
\<close>

function rsrw_loop :: "nat \<Rightarrow> string \<Rightarrow> string" where
  "rsrw_loop i v =
     (if i < length v
      then rsrw_loop (i + 54) (if v ! i = CHR '' '' then take i v @ drop (i + 1) v else v)
      else v)"
  by pat_completeness auto
termination
  by (relation "measure (\<lambda>(i, v). length v - i)") auto

declare rsrw_loop.simps [simp del]

definition remove_superfluous_reference_whitespace :: "string \<Rightarrow> string" where
  "remove_superfluous_reference_whitespace v = rsrw_loop 53 v"

text \<open>
  The contract in the words of the specification: visit the positions 53, 107, 161, ...
  (every 54th character, counted from 0) from left to right; at each one, drop the
  character standing there in the string as shortened so far if it is a space.
\<close>

definition drop_space_at :: "string \<Rightarrow> nat \<Rightarrow> string" where
  "drop_space_at v i =
     (if i < length v \<and> v ! i = CHR '' '' then take i v @ drop (Suc i) v else v)"

definition every_54th :: "nat \<Rightarrow> nat list" where
  "every_54th n = map (\<lambda>k. 53 + 54 * k) [0..<n]"

definition normalizer_spec :: "string \<Rightarrow> string" where
  "normalizer_spec v = foldl drop_space_at v (every_54th (length v))"

section \<open>Regular expressions\<close>

text \<open>
  The two patterns of the parser use literals, repetitions of a single character class
  (greedy and, once, non-greedy), alternatives, capturing groups and the word boundary
  \<open>\b\<close>.  The matcher below is a backtracking matcher for this fragment: it lists
  every way a pattern can match at a position, in the order in which Python's \<open>re\<close>
  tries them, so that the head of the list is the match \<open>re\<close> reports.
\<close>

datatype cls = Dot | Digit | Space | Upper | Ch char

fun cls_match :: "cls \<Rightarrow> char \<Rightarrow> bool" where
  "cls_match Dot c = (c \<noteq> CHR 0x0A)"
| "cls_match Digit c = is_digit c"
| "cls_match Space c = is_space c"
| "cls_match Upper c = is_upper c"
| "cls_match (Ch x) c = (c = x)"

datatype gkey = Num nat | Name string

datatype regex =
    Lit string
  | Rep cls nat "nat option" bool
  | Cat "regex list"
  | Alt regex regex
  | Group gkey regex
  | WordB

type_synonym caps = "(gkey \<times> nat \<times> nat) list"

text \<open>\<open>\b\<close> at position \<open>i\<close>: exactly one of the characters before and after the position is
  a word character (the ends of the string count as non-word).\<close>

definition word_boundary :: "string \<Rightarrow> nat \<Rightarrow> bool" where
  "word_boundary s i =
     ((0 < i \<and> i \<le> length s \<and> is_word (s ! (i - 1))) \<noteq> (i < length s \<and> is_word (s ! i)))"

text \<open>The numbers of repetitions a class repetition \<open>c{lo,hi}\<close> can take at a position, in
  the order tried: from the longest run down for a greedy repetition, from the shortest up
  for a non-greedy one.\<close>

definition rep_counts :: "cls \<Rightarrow> nat \<Rightarrow> nat option \<Rightarrow> bool \<Rightarrow> string \<Rightarrow> nat list" where
  "rep_counts k lo hi greedy rest =
     (let run = length (takeWhile (cls_match k) rest);
          n = (case hi of None \<Rightarrow> run | Some h \<Rightarrow> min h run)
      in if greedy then rev [lo..<Suc n] else [lo..<Suc n])"

fun rmatch :: "regex \<Rightarrow> string \<Rightarrow> nat \<Rightarrow> caps \<Rightarrow> (nat \<times> caps) list"
and rmatch_seq :: "regex list \<Rightarrow> string \<Rightarrow> nat \<Rightarrow> caps \<Rightarrow> (nat \<times> caps) list" where
  "rmatch (Lit l) s i c = (if take (length l) (drop i s) = l then [(i + length l, c)] else [])"
| "rmatch (Rep k lo hi greedy) s i c =
     map (\<lambda>n. (i + n, c)) (rep_counts k lo hi greedy (drop i s))"
| "rmatch (Cat rs) s i c = rmatch_seq rs s i c"
| "rmatch (Alt a b) s i c = rmatch a s i c @ rmatch b s i c"
| "rmatch (Group g r) s i c = map (\<lambda>(j, c'). (j, (g, i, j) # c')) (rmatch r s i c)"
| "rmatch WordB s i c = (if word_boundary s i then [(i, c)] else [])"
| "rmatch_seq [] s i c = [(i, c)]"
| "rmatch_seq (r # rs) s i c = concat (map (\<lambda>(j, c'). rmatch_seq rs s j c') (rmatch r s i c))"

text \<open>A match object: start, end and the spans of the groups.\<close>

type_synonym match = "nat \<times> nat \<times> caps"

text \<open>\<open>re.search\<close> from position \<open>p\<close>: the first position at which the pattern matches.\<close>

function search_from :: "regex \<Rightarrow> string \<Rightarrow> nat \<Rightarrow> match option" where
  "search_from r s p =
     (if length s < p then None
      else case rmatch r s p [] of
             [] \<Rightarrow> search_from r s (Suc p)
           | (j, c) # _ \<Rightarrow> Some (p, j, c))"
  by pat_completeness auto
termination
  by (relation "measure (\<lambda>(r, s, p). Suc (length s) - p)") auto

declare search_from.simps [simp del]

definition re_search :: "regex \<Rightarrow> string \<Rightarrow> match option" where
  "re_search r s = search_from r s 0"

text \<open>\<open>re.finditer\<close>: the matches from left to right, each search starting where the
  previous match ended.  (The one pattern iterated over matches at least five characters;
  the scan stops at an empty match, which that pattern cannot produce.)\<close>

function finditer_from :: "regex \<Rightarrow> string \<Rightarrow> nat \<Rightarrow> match list" where
  "finditer_from r s p =
     (case search_from r s p of
        None \<Rightarrow> []
      | Some (i, j, c) \<Rightarrow>
          (i, j, c) # (if p < j \<and> j \<le> length s then finditer_from r s j else []))"
  by pat_completeness auto
termination
  by (relation "measure (\<lambda>(r, s, p). Suc (length s) - p)") auto

declare finditer_from.simps [simp del]

definition re_finditer :: "regex \<Rightarrow> string \<Rightarrow> match list" where
  "re_finditer r s = finditer_from r s 0"

text \<open>\<open>match.group(g)\<close>, for a group that took part in the match.\<close>

definition group :: "string \<Rightarrow> caps \<Rightarrow> gkey \<Rightarrow> string" where
  "group s c g = (case map_of c g of None \<Rightarrow> [] | Some (a, b) \<Rightarrow> take (b - a) (drop a s))"

text \<open>The named groups of a pattern, in the order they are written.\<close>

fun named_groups :: "regex \<Rightarrow> string list" where
  "named_groups (Lit l) = []"
| "named_groups (Rep k lo hi greedy) = []"
| "named_groups (Cat rs) = concat (map named_groups rs)"
| "named_groups (Alt a b) = named_groups a @ named_groups b"
| "named_groups (Group (Name n) r) = n # named_groups r"
| "named_groups (Group (Num n) r) = named_groups r"
| "named_groups WordB = []"

text \<open>The groups that lie on every path through a pattern, and so take part in every
  match.\<close>

fun always_groups :: "regex \<Rightarrow> gkey list" where
  "always_groups (Lit l) = []"
| "always_groups (Rep k lo hi greedy) = []"
| "always_groups (Cat rs) = concat (map always_groups rs)"
| "always_groups (Alt a b) = filter (\<lambda>g. g \<in> set (always_groups b)) (always_groups a)"
| "always_groups (Group g r) = g # always_groups r"
| "always_groups WordB = []"

text \<open>\<open>list(match.groupdict().items())\<close>\<close>

definition groupdict_items :: "regex \<Rightarrow> string \<Rightarrow> caps \<Rightarrow> (string \<times> string) list" where
  "groupdict_items r s c = map (\<lambda>n. (n, group s c (Name n))) (named_groups r)"

section \<open>Reference tokenizer\<close>

subsection \<open>Default-segment sub-parser\<close>

text \<open>The three transaction-type labels, in the order of the source.\<close>

definition type_suffixes :: "string list" where
  "type_suffixes =
     [''SEPA-'' @ [CHR 0xDC] @ ''BERWEISUNG'', ''SEPA-LOHN/GEHALT'', ''SEPA-BASISLASTSCHRIFT'']"

text \<open>
  The card-payment pattern, piece by piece as in the source:
  \<^verbatim>\<open>
  (?P<card_payment_reference>.*)
  (?P<card_payment_datetime>\d{2}\.\d{2}\.\d{4} \d{2}\.\d{2}\.\d{2})
  (?:OFFLIN|\d{6})
  (?P<card_payment_currency>[A-Z]{3})\s+
  (?P<card_payment_amount>-?\d+,\d{2})
  EC\s+[A-Z]*\d+\s*\d*\s*
  PAN (?P<pan>\d+)
  (?P<recipient>.*?)\d{3}
  (?P<card_expiration>\d{2}/\d{4})
  (?P<type>GIROCARD|nicht GIRO)
  (?P<card_data_entry_method>[A-Z]{4})/
  (?P<card_payment_auth_method>[A-Z]{4})/+\d*
  \<close>
\<close>

definition digits :: "nat \<Rightarrow> regex" where
  "digits n = Rep Digit n (Some n) True"

definition card_payment_pattern :: regex where
  "card_payment_pattern = Cat
     [Group (Name ''card_payment_reference'') (Rep Dot 0 None True),
      Group (Name ''card_payment_datetime'')
        (Cat [digits 2, Lit ''.'', digits 2, Lit ''.'', digits 4, Lit '' '',
              digits 2, Lit ''.'', digits 2, Lit ''.'', digits 2]),
      Lit '' '',
      Alt (Lit ''OFFLIN'') (digits 6),
      Lit '' '',
      Group (Name ''card_payment_currency'') (Rep Upper 3 (Some 3) True),
      Rep Space 1 None True,
      Group (Name ''card_payment_amount'')
        (Cat [Rep (Ch CHR ''-'') 0 (Some 1) True, Rep Digit 1 None True, Lit '','', digits 2]),
      Lit '' '',
      Lit ''EC'', Rep Space 1 None True, Rep Upper 0 None True, Rep Digit 1 None True,
      Rep Space 0 None True, Rep Digit 0 None True, Rep Space 0 None True,
      Lit ''PAN '',
      Group (Name ''pan'') (Rep Digit 1 None True),
      Lit '' '',
      Group (Name ''recipient'') (Rep Dot 0 None False),
      digits 3,
      Lit '' '',
      Group (Name ''card_expiration'') (Cat [digits 2, Lit ''/'', digits 4]),
      Lit '' '',
      Group (Name ''type'') (Alt (Lit ''GIROCARD'') (Lit ''nicht GIRO'')),
      Lit '' '',
      Group (Name ''card_data_entry_method'') (Rep Upper 4 (Some 4) True),
      Lit ''/'',
      Group (Name ''card_payment_auth_method'') (Rep Upper 4 (Some 4) True),
      Rep (Ch CHR ''/'') 1 None True,
      Rep Digit 0 None True]"

text \<open>
  \<^verbatim>\<open>
  def parse_default_field(value):
      for suffix in [...]:
          if value.endswith(suffix):
              return ("", [("recipient", value[: -len(suffix)]), ("type", suffix)])
      if match := re.search(<card-payment pattern>, value):
          return (value[: match.span()[0]], list(match.groupdict().items()))
      return (value, [])
  \<close>
\<close>

definition parse_default_field :: "string \<Rightarrow> string \<times> (string \<times> string) list" where
  "parse_default_field v =
     (case find (endswith v) type_suffixes of
        Some suffix \<Rightarrow>
          ('''', [(''recipient'', take (length v - length suffix) v), (''type'', suffix)])
      | None \<Rightarrow>
          (case re_search card_payment_pattern v of
             Some (start, _, c) \<Rightarrow> (take start v, groupdict_items card_payment_pattern v c)
           | None \<Rightarrow> (v, [])))"

subsection \<open>Tag scanner\<close>

text \<open>The tag-marker pattern \<^verbatim>\<open>\b([A-Z]{3,4}\+) \<close>.\<close>

definition tag_pattern :: regex where
  "tag_pattern =
     Cat [WordB, Group (Num 1) (Cat [Rep Upper 3 (Some 4) True, Lit ''+'']), Lit '' '']"

text \<open>
  \<^verbatim>\<open>
  def parse_reference_fields(self, reference):
      field = "default"
      start = 0
      for match in re.finditer(r"\b([A-Z]{3,4}\+) ", reference):
          end, new_start = match.span()
          value = reference[start:end].strip()
          if field == "default":
              value, other_fields = parse_default_field(value)
              yield from other_fields
          yield (field, value)
          start = new_start
          field = match.group(1)
      value = reference[start:].strip()
      if field == "default":
          value, other_fields = parse_default_field(value)
          yield from other_fields
      yield (field, value)
  \<close>
  The generator becomes the list of the pairs it yields.  \<open>emit\<close> is the block that both
  the loop body and the code after the loop run for a finished segment.
\<close>

definition emit :: "string \<Rightarrow> string \<Rightarrow> (string \<times> string) list" where
  "emit field v =
     (if field = ''default''
      then (case parse_default_field v of (v', other_fields) \<Rightarrow> other_fields @ [(field, v')])
      else [(field, v)])"

fun segments :: "string \<Rightarrow> string \<Rightarrow> nat \<Rightarrow> match list \<Rightarrow> (string \<times> string) list" where
  "segments reference field start [] = emit field (strip (drop start reference))"
| "segments reference field start ((end, new_start, c) # ms) =
     emit field (strip (take (end - start) (drop start reference)))
     @ segments reference (group reference c (Num 1)) new_start ms"

definition parse_reference_fields :: "string \<Rightarrow> (string \<times> string) list" where
  "parse_reference_fields reference =
     segments reference ''default'' 0 (re_finditer tag_pattern reference)"

section \<open>Identifier digest\<close>

text \<open>
  \<open>str.encode("utf8")\<close> on Latin-1 text: one byte below 128, two bytes from 128 on.
  Bytes are integers in \<open>0..255\<close>.
\<close>

definition utf8_encode :: "string \<Rightarrow> int list" where
  "utf8_encode s =
     concat (map (\<lambda>c. let n = code_point c
                        in if n < 128 then [n] else [192 + n div 64, 128 + n mod 64]) s)"

text \<open>
  \<open>hashlib.new("sha1")\<close>, \<open>update\<close>, \<open>hexdigest\<close>: SHA-1 (FIPS 180-4) on 32-bit words,
  written over \<^typ>\<open>int\<close> with the reduction modulo \<open>2^32\<close> spelled out.
\<close>

definition m32 :: "int \<Rightarrow> int" where
  "m32 x = x mod 4294967296"

definition rotl :: "nat \<Rightarrow> int \<Rightarrow> int" where
  "rotl n x = m32 (x * 2 ^ n) + x div 2 ^ (32 - n)"

fun be_bytes :: "nat \<Rightarrow> int \<Rightarrow> int list" where
  "be_bytes 0 n = []"
| "be_bytes (Suc k) n = (n div 256 ^ k) mod 256 # be_bytes k n"

definition sha1_pad :: "int list \<Rightarrow> int list" where
  "sha1_pad m =
     m @ [128] @ replicate ((119 - length m mod 64) mod 64) 0 @ be_bytes 8 (8 * int (length m))"

definition be_word :: "int list \<Rightarrow> int" where
  "be_word bs = foldl (\<lambda>a b. a * 256 + b) 0 bs"

fun chunks :: "nat \<Rightarrow> nat \<Rightarrow> 'a list \<Rightarrow> 'a list list" where
  "chunks 0 n xs = []"
| "chunks (Suc k) n xs = take n xs # chunks k n (drop n xs)"

fun sha1_schedule :: "nat \<Rightarrow> int list \<Rightarrow> int list" where
  "sha1_schedule 0 w = w"
| "sha1_schedule (Suc k) w =
     (let i = length w in
      sha1_schedule k
        (w @ [rotl 1 (w ! (i - 3) XOR w ! (i - 8) XOR w ! (i - 14) XOR w ! (i - 16))]))"

type_synonym sha1_state = "int \<times> int \<times> int \<times> int \<times> int"

definition sha1_f :: "nat \<Rightarrow> int \<Rightarrow> int \<Rightarrow> int \<Rightarrow> int" where
  "sha1_f t b c d =
     (if t < 20 then (b AND c) OR ((4294967295 - b) AND d)
      else if t < 40 then b XOR c XOR d
      else if t < 60 then (b AND c) OR (b AND d) OR (c AND d)
      else b XOR c XOR d)"

definition sha1_k :: "nat \<Rightarrow> int" where
  "sha1_k t = (if t < 20 then 0x5A827999 else if t < 40 then 0x6ED9EBA1
               else if t < 60 then 0x8F1BBCDC else 0xCA62C1D6)"

fun sha1_round :: "int list \<Rightarrow> sha1_state \<Rightarrow> nat \<Rightarrow> sha1_state" where
  "sha1_round w (a, b, c, d, e) t =
     (m32 (rotl 5 a + sha1_f t b c d + e + sha1_k t + w ! t), a, rotl 30 b, c, d)"

fun sha1_block :: "sha1_state \<Rightarrow> int list \<Rightarrow> sha1_state" where
  "sha1_block (h0, h1, h2, h3, h4) blk =
     (let w = sha1_schedule 64 (map be_word (chunks 16 4 blk));
          (a, b, c, d, e) = foldl (sha1_round w) (h0, h1, h2, h3, h4) [0..<80]
      in (m32 (h0 + a), m32 (h1 + b), m32 (h2 + c), m32 (h3 + d), m32 (h4 + e)))"

definition hex_digit :: "int \<Rightarrow> char" where
  "hex_digit n = ''0123456789abcdef'' ! nat n"

fun hex_word :: "nat \<Rightarrow> int \<Rightarrow> string" where
  "hex_word 0 n = []"
| "hex_word (Suc k) n = hex_digit (n div 16 ^ k mod 16) # hex_word k n"

definition sha1_hexdigest :: "int list \<Rightarrow> string" where
  "sha1_hexdigest m =
     (let p = sha1_pad m;
          (a, b, c, d, e) = foldl sha1_block
             (0x67452301, 0xEFCDAB89, 0x98BADCFE, 0x10325476, 0xC3D2E1F0)
             (chunks (length p div 64) 64 p)
      in concat (map (hex_word 8) [a, b, c, d, e]))"

section \<open>Library values and functions\<close>

text \<open>
  The parser builds on \<open>datetime\<close>, \<open>decimal\<close>, \<open>schwifty\<close> and \<open>ofxstatement\<close>.  Their
  values are modelled by the types below.  Their functions are not part of the parser:
  the parser takes them as a record of functions, and what is proved about the parser
  holds for whatever these functions return.
\<close>

datatype error = KeyError string | ValueError | InvalidOperation | SchwiftyException

record datetime =
  year :: int
  month :: int
  day :: int
  hour :: int
  minute :: int
  second :: int
  tzinfo :: "string option"

text \<open>A \<open>decimal.Decimal\<close>: a finite number (sign, coefficient, exponent), an infinity, or
  a NaN.\<close>

datatype decimal = Finite bool nat int | Infinity bool | NaN

text \<open>\<open>amount > 0.0\<close>.  An ordering comparison with a NaN signals \<open>InvalidOperation\<close>,
  which the default context raises.\<close>

fun decimal_gt_zero :: "decimal \<Rightarrow> error + bool" where
  "decimal_gt_zero (Finite negative coefficient _) = Inr (\<not> negative \<and> 0 < coefficient)"
| "decimal_gt_zero (Infinity negative) = Inr (\<not> negative)"
| "decimal_gt_zero NaN = Inl InvalidOperation"

text \<open>\<open>schwifty.IBAN\<close> and \<open>schwifty.BIC\<close> objects are strings (the compact code); they are
  true when not empty.\<close>

type_synonym iban = string
type_synonym bic = string

record library =
  strptime :: "string \<Rightarrow> string \<Rightarrow> error + datetime"
  strftime :: "datetime \<Rightarrow> string \<Rightarrow> string"
  Decimal :: "string \<Rightarrow> error + decimal"
  decimal_str :: "decimal \<Rightarrow> string"
  schwifty_IBAN :: "string \<Rightarrow> error + iban"
  schwifty_BIC :: "string \<Rightarrow> error + bic"
  iban_bic :: "iban \<Rightarrow> bic option"
  bic_branch_code :: "bic \<Rightarrow> string option"
  StatementLine_trntype :: "string option"

text \<open>
  \<open>StatementLine_trntype\<close> is the value of the attribute \<open>trntype\<close> of a freshly
  constructed \<open>ofxstatement.statement.StatementLine\<close>, which the class declaration of the
  library fixes (it declares \<open>trntype = "CHECK"\<close>, and the constructor does not reset it).
\<close>

record bank_account =
  bank_id :: bic
  acct_id :: iban
  branch_id :: "string option"

record statement_line =
  line_id :: "string option"
  date :: "datetime option"
  memo :: "string option"
  amount :: "decimal option"
  date_user :: "datetime option"
  payee :: "string option"
  check_no :: "string option"
  trntype :: "string option"
  bank_account_to :: "bank_account option"
  currency :: "string option"

text \<open>What \<open>logger.warning\<close> is called with: the kind of failure and the offending text.\<close>

datatype warning = IbanWarning string | BicWarning string | DatetimeWarning string

section \<open>Transaction assembler\<close>

text \<open>A row as \<open>csv.DictReader\<close> hands it over and as the source types it,
  \<open>dict[str, str]\<close>: a column is absent or holds a string.\<close>

type_synonym row = "string \<rightharpoonup> string"

text \<open>\<open>line[key]\<close>\<close>

definition getitem :: "row \<Rightarrow> string \<Rightarrow> error + string" where
  "getitem line k = (case line k of None \<Rightarrow> Inl (KeyError k) | Some v \<Rightarrow> Inr v)"

text \<open>The column names; \<open>CHR 0xE4\<close> is the a with diaeresis.\<close>

definition Buchungstag :: string where "Buchungstag = ''Buchungstag''"
definition Wertstellungstag :: string where "Wertstellungstag = ''Wertstellungstag''"
definition Verwendungszweck :: string where "Verwendungszweck = ''Verwendungszweck''"
definition Umsatz :: string where "Umsatz = ''Umsatz''"
definition Waehrung :: string where "Waehrung = ''W'' @ [CHR 0xE4] @ ''hrung''"

definition TIMEZONE :: string where "TIMEZONE = ''Europe/Berlin''"

definition date_format :: string where "date_format = ''%d.%m.%Y''"

text \<open>
  \<^verbatim>\<open>
  def parse_datetime(self, value):
      return super().parse_datetime(value).replace(tzinfo=TIMEZONE)
  \<close>
  where the method of the base class is \<open>datetime.strptime(value, self.date_format)\<close>.
\<close>

definition parse_datetime :: "library \<Rightarrow> string \<Rightarrow> error + datetime" where
  "parse_datetime lib v =
     (case strptime lib v date_format of
        Inl e \<Rightarrow> Inl e
      | Inr d \<Rightarrow> Inr (d\<lparr>tzinfo := Some TIMEZONE\<rparr>))"

text \<open>
  \<^verbatim>\<open>
  def parse_decimal(self, value):
      return decimal.Decimal(value.replace(".", "").replace(",", "."))
  \<close>
\<close>

definition parse_decimal :: "library \<Rightarrow> string \<Rightarrow> error + decimal" where
  "parse_decimal lib v =
     Decimal lib (replace_char CHR '','' ''.'' (replace_char CHR ''.'' '''' v))"

text \<open>
  \<^verbatim>\<open>
  def find_transaction_type(self, haystack):
      for needle, transaction_type in [...]:
          if needle in haystack:
              return transaction_type
  \<close>
\<close>

definition transaction_types :: "(string \<times> string) list" where
  "transaction_types =
     [(''SEPA-'' @ [CHR 0xDC] @ ''BERWEISUNG'', ''XFER''),
      (''SEPA-LOHN/GEHALT'', ''XFER''),
      (''SEPA-BASISLASTSCHRIFT'', ''DIRECTDEBIT''),
      (''GIROCARD'', ''POS''),
      (''nicht GIRO'', ''POS'')]"

definition find_transaction_type :: "string \<Rightarrow> string option" where
  "find_transaction_type haystack =
     map_option snd (find (\<lambda>(needle, _). contains haystack needle) transaction_types)"

text \<open>\<open>dict(pairs)\<close>: a later pair with the same key replaces an earlier one.\<close>

definition dict :: "(string \<times> string) list \<Rightarrow> (string \<rightharpoonup> string)" where
  "dict pairs = map_of (rev pairs)"

text \<open>\<open>if value := fields.get(key)\<close>: the value when the key is there and the value is not
  the empty string.\<close>

definition get_truthy :: "(string \<rightharpoonup> string) \<Rightarrow> string \<Rightarrow> string option" where
  "get_truthy flds k =
     (case flds k of None \<Rightarrow> None | Some v \<Rightarrow> if v = [] then None else Some v)"

definition REF :: string where "REF = ''SVWZ+''"
definition IBAN :: string where "IBAN = ''IBAN+''"
definition BIC :: string where "BIC = ''BIC+''"
definition END_TO_END_REF :: string where "END_TO_END_REF = ''EREF+''"

text \<open>
  \<^verbatim>\<open>
  for field in [SepaField.REF, "card_payment_reference"]:
      if value := fields.get(field):
          statement_line.memo = value
  \<close>
\<close>

definition set_memo :: "(string \<rightharpoonup> string) \<Rightarrow> statement_line \<Rightarrow> statement_line" where
  "set_memo flds st =
     foldl (\<lambda>st field. case get_truthy flds field of
                          Some v \<Rightarrow> st\<lparr>memo := Some v\<rparr>
                        | None \<Rightarrow> st)
           st [REF, ''card_payment_reference'']"

text \<open>
  The block that decodes the counterparty account.  An exception other than
  \<open>SchwiftyException\<close> is not caught.
  \<^verbatim>\<open>
  if value := fields.get(SepaField.IBAN):
      value = value.replace(" ", "")
      try:
          iban = schwifty.IBAN(value)
      except schwifty.exceptions.SchwiftyException as err:
          logger.warning("Failed to parse IBAN from %r: %r", value, err)
      else:
          bic = None
          if bic_value := fields.get(SepaField.BIC):
              bic_value = bic_value.replace(" ", "")
              try:
                  bic = schwifty.BIC(bic_value)
              except schwifty.exceptions.SchwiftyException as err:
                  logger.warning("Failed to parse BIC from %r: %r", bic_value, err)
          if bic is None:
              bic = iban.bic
          if iban and bic:
              bank_account = BankAccount(bank_id=bic, acct_id=iban)
              if bic.branch_code:
                  bank_account.branch_id = bic.branch_code
              statement_line.bank_account_to = bank_account
  \<close>
\<close>

definition decode_bic ::
  "library \<Rightarrow> (string \<rightharpoonup> string) \<Rightarrow> error + (bic option \<times> warning list)" where
  "decode_bic lib flds =
     (case get_truthy flds BIC of
        None \<Rightarrow> Inr (None, [])
      | Some bic_value \<Rightarrow>
          (let bic_value = replace_char CHR '' '' '''' bic_value in
           case schwifty_BIC lib bic_value of
             Inl e \<Rightarrow> if e = SchwiftyException then Inr (None, [BicWarning bic_value]) else Inl e
           | Inr b \<Rightarrow> Inr (Some b, [])))"

definition make_bank_account :: "library \<Rightarrow> iban \<Rightarrow> bic option \<Rightarrow> bank_account option" where
  "make_bank_account lib i b =
     (case (case b of None \<Rightarrow> iban_bic lib i | Some x \<Rightarrow> Some x) of
        None \<Rightarrow> None
      | Some b' \<Rightarrow>
          if i \<noteq> [] \<and> b' \<noteq> []
          then Some \<lparr>bank_id = b', acct_id = i,
                     branch_id = (case bic_branch_code lib b' of
                                    None \<Rightarrow> None
                                  | Some br \<Rightarrow> if br = [] then None else Some br)\<rparr>
          else None)"

definition set_bank_account ::
  "library \<Rightarrow> (string \<rightharpoonup> string) \<Rightarrow> statement_line \<Rightarrow> error + (statement_line \<times> warning list)"
where
  "set_bank_account lib flds st =
     (case get_truthy flds IBAN of
        None \<Rightarrow> Inr (st, [])
      | Some v \<Rightarrow>
          (let v = replace_char CHR '' '' '''' v in
           case schwifty_IBAN lib v of
             Inl e \<Rightarrow> if e = SchwiftyException then Inr (st, [IbanWarning v]) else Inl e
           | Inr i \<Rightarrow>
               (case decode_bic lib flds of
                  Inl e \<Rightarrow> Inl e
                | Inr (b, ws) \<Rightarrow>
                    (case make_bank_account lib i b of
                       None \<Rightarrow> Inr (st, ws)
                     | Some account \<Rightarrow> Inr (st\<lparr>bank_account_to := Some account\<rparr>, ws)))))"

text \<open>
  \<^verbatim>\<open>
  if value := fields.get(SepaField.END_TO_END_REF):
      statement_line.check_no = value
  \<close>
\<close>

definition set_check_no :: "(string \<rightharpoonup> string) \<Rightarrow> statement_line \<Rightarrow> statement_line" where
  "set_check_no flds st =
     (case get_truthy flds END_TO_END_REF of
        None \<Rightarrow> st
      | Some v \<Rightarrow> st\<lparr>check_no := Some v\<rparr>)"

text \<open>
  \<^verbatim>\<open>
  if value := fields.get("card_payment_datetime"):
      try:
          card_payment_datetime = datetime.datetime.strptime(value, "%d.%m.%Y %H.%M.%S")
      except ValueError as err:
          logger.warning("Failed to parse datetime from %r: %r", value, err)
      else:
          statement_line.date_user = card_payment_datetime
  \<close>
  \<open>SchwiftyException\<close> is a subclass of \<open>ValueError\<close>, so the handler takes both.
\<close>

definition set_date_user ::
  "library \<Rightarrow> (string \<rightharpoonup> string) \<Rightarrow> statement_line \<Rightarrow> error + (statement_line \<times> warning list)"
where
  "set_date_user lib flds st =
     (case get_truthy flds ''card_payment_datetime'' of
        None \<Rightarrow> Inr (st, [])
      | Some v \<Rightarrow>
          (case strptime lib v ''%d.%m.%Y %H.%M.%S'' of
             Inl e \<Rightarrow> if e = ValueError \<or> e = SchwiftyException
                      then Inr (st, [DatetimeWarning v]) else Inl e
           | Inr d \<Rightarrow> Inr (st\<lparr>date_user := Some d\<rparr>, [])))"

text \<open>
  \<^verbatim>\<open>
  if value := fields.get("type"):
      statement_line.trntype = self.find_transaction_type(value)
  if statement_line.trntype is None:
      statement_line.trntype = "CREDIT" if amount > 0.0 else "DEBIT"
  \<close>
\<close>

definition set_trntype ::
  "(string \<rightharpoonup> string) \<Rightarrow> decimal \<Rightarrow> statement_line \<Rightarrow> error + statement_line" where
  "set_trntype flds amt st =
     (let st = (case get_truthy flds ''type'' of
                  None \<Rightarrow> st
                | Some v \<Rightarrow> st\<lparr>trntype := find_transaction_type v\<rparr>)
      in case trntype st of
           Some _ \<Rightarrow> Inr st
         | None \<Rightarrow>
             (case decimal_gt_zero amt of
                Inl e \<Rightarrow> Inl e
              | Inr positive \<Rightarrow> Inr (st\<lparr>trntype := Some (if positive then ''CREDIT'' else ''DEBIT'')\<rparr>)))"

text \<open>
  \<^verbatim>\<open>
  if value := fields.get("recipient"):
      statement_line.payee = value
  \<close>
\<close>

definition set_payee :: "(string \<rightharpoonup> string) \<Rightarrow> statement_line \<Rightarrow> statement_line" where
  "set_payee flds st =
     (case get_truthy flds ''recipient'' of
        None \<Rightarrow> st
      | Some v \<Rightarrow> st\<lparr>payee := Some v\<rparr>)"

text \<open>
  The identifier:
  \<^verbatim>\<open>
  h = hashlib.new("sha1")
  h.update(f"{reference} {amount} {currency.symbol}".encode("utf8"))
  statement_line.id = "{}{}".format(value_date.strftime("%Y%m%d"), h.hexdigest())
  \<close>
\<close>

definition hashed_text :: "library \<Rightarrow> string \<Rightarrow> decimal \<Rightarrow> string \<Rightarrow> string" where
  "hashed_text lib reference amt symbol =
     reference @ '' '' @ decimal_str lib amt @ '' '' @ symbol"

definition make_id :: "library \<Rightarrow> datetime \<Rightarrow> string \<Rightarrow> decimal \<Rightarrow> string \<Rightarrow> string" where
  "make_id lib value_date reference amt symbol =
     strftime lib value_date ''%Y%m%d''
     @ sha1_hexdigest (utf8_encode (hashed_text lib reference amt symbol))"

text \<open>
  The statement line as it stands after line 243 of the source: constructed from the value
  date, the normalized reference and the amount, then given the booking date as
  \<open>date_user\<close>, the currency and the identifier.  The constructor of the library leaves
  payee, check number and counterparty account unset.
\<close>

definition initial_line ::
  "library \<Rightarrow> datetime \<Rightarrow> datetime \<Rightarrow> string \<Rightarrow> decimal \<Rightarrow> string \<Rightarrow> statement_line" where
  "initial_line lib booking_date value_date reference amt symbol =
     \<lparr>line_id = Some (make_id lib value_date reference amt symbol),
      date = Some value_date,
      memo = Some reference,
      amount = Some amt,
      date_user = Some booking_date,
      payee = None,
      check_no = None,
      trntype = StatementLine_trntype lib,
      bank_account_to = None,
      currency = Some symbol\<rparr>"

text \<open>The overrides from the decoded fields, lines 245 to 301, in the order of the source.\<close>

definition apply_fields ::
  "library \<Rightarrow> (string \<rightharpoonup> string) \<Rightarrow> decimal \<Rightarrow> statement_line
     \<Rightarrow> error + (statement_line \<times> warning list)" where
  "apply_fields lib flds amt st =
     (case set_bank_account lib flds (set_memo flds st) of
        Inl e \<Rightarrow> Inl e
      | Inr (st, ws1) \<Rightarrow>
          (case set_date_user lib flds (set_check_no flds st) of
             Inl e \<Rightarrow> Inl e
           | Inr (st, ws2) \<Rightarrow>
               (case set_trntype flds amt st of
                  Inl e \<Rightarrow> Inl e
                | Inr st \<Rightarrow> Inr (set_payee flds st, ws1 @ ws2))))"

text \<open>\<open>parse_record\<close>: the columns are read and decoded in the order of the source, the
  first failure ends the call.\<close>

definition parse_record :: "library \<Rightarrow> row \<Rightarrow> error + (statement_line \<times> warning list)" where
  "parse_record lib line =
     (case getitem line Buchungstag of Inl e \<Rightarrow> Inl e | Inr b \<Rightarrow>
      case parse_datetime lib b of Inl e \<Rightarrow> Inl e | Inr booking_date \<Rightarrow>
      case getitem line Wertstellungstag of Inl e \<Rightarrow> Inl e | Inr w \<Rightarrow>
      case parse_datetime lib w of Inl e \<Rightarrow> Inl e | Inr value_date \<Rightarrow>
      case getitem line Verwendungszweck of Inl e \<Rightarrow> Inl e | Inr v \<Rightarrow>
      case getitem line Umsatz of Inl e \<Rightarrow> Inl e | Inr u \<Rightarrow>
      case parse_decimal lib u of Inl e \<Rightarrow> Inl e | Inr amt \<Rightarrow>
      case getitem line Waehrung of Inl e \<Rightarrow> Inl e | Inr symbol \<Rightarrow>
        (let reference = remove_superfluous_reference_whitespace v
         in apply_fields lib (dict (parse_reference_fields reference)) amt
              (initial_line lib booking_date value_date reference amt symbol)))"

text \<open>The decoded fields of a purpose text, as \<open>parse_record\<close> computes them.\<close>

definition decoded_fields :: "string \<Rightarrow> (string \<rightharpoonup> string)" where
  "decoded_fields v = dict (parse_reference_fields (remove_superfluous_reference_whitespace v))"

text \<open>The library raises what its documentation says: the \<open>schwifty\<close> constructors a
  \<open>SchwiftyException\<close>, \<open>strptime\<close> a \<open>ValueError\<close>.\<close>

definition raises_as_documented :: "library \<Rightarrow> bool" where
  "raises_as_documented lib \<longleftrightarrow>
     (\<forall>v e. schwifty_IBAN lib v = Inl e \<longrightarrow> e = SchwiftyException) \<and>
     (\<forall>v e. schwifty_BIC lib v = Inl e \<longrightarrow> e = SchwiftyException) \<and>
     (\<forall>v f e. strptime lib v f = Inl e \<longrightarrow> e = ValueError)"

section \<open>Record splitter\<close>

text \<open>
  \<^verbatim>\<open>
  def split_records(self):
      yield from (row for row in self.reader
                  if row["Buchungstag"] != "* noch nicht ausgef\"uhrte Ums\"atze")
  \<close>
  The generator yields rows until the reader is exhausted or a row has no booking-date
  column: the result is the rows yielded and the exception that ended the iteration, if
  any.
\<close>

definition not_yet_executed :: string where
  "not_yet_executed =
     ''* noch nicht ausgef'' @ [CHR 0xFC] @ ''hrte Ums'' @ [CHR 0xE4] @ ''tze''"

fun split_records :: "row list \<Rightarrow> row list \<times> error option" where
  "split_records [] = ([], None)"
| "split_records (r # rows) =
     (case getitem r Buchungstag of
        Inl e \<Rightarrow> ([], Some e)
      | Inr b \<Rightarrow>
          (case split_records rows of
             (out, e) \<Rightarrow> (if b \<noteq> not_yet_executed then r # out else out, e)))"

section \<open>A sample library\<close>

text \<open>
  One instance of the library record, used to run the parser on concrete rows.  Its
  functions agree with the real ones on the plain inputs of the worked examples below:
  zero-padded dates, amounts written as digits with an optional sign and fraction.  It
  knows no bank registry, so it derives no BIC from an IBAN.  A statement line it
  constructs has the transaction type \<open>CHECK\<close>, the class default of
  \<open>ofxstatement.statement.StatementLine\<close>.
\<close>

definition digit_value :: "char \<Rightarrow> int" where
  "digit_value c = code_point c - 48"

definition number :: "string \<Rightarrow> int option" where
  "number s =
     (if s \<noteq> [] \<and> list_all is_digit s
      then Some (foldl (\<lambda>a c. 10 * a + digit_value c) 0 s) else None)"

definition days_in_month :: "int \<Rightarrow> int \<Rightarrow> int" where
  "days_in_month y m =
     (if m = 2 then (if y mod 4 = 0 \<and> (y mod 100 \<noteq> 0 \<or> y mod 400 = 0) then 29 else 28)
      else if m = 4 \<or> m = 6 \<or> m = 9 \<or> m = 11 then 30 else 31)"

definition sample_date :: "string \<Rightarrow> (int \<times> int \<times> int) option" where
  "sample_date v =
     (if length v = 10 \<and> v ! 2 = CHR ''.'' \<and> v ! 5 = CHR ''.''
      then (case (number (take 2 v), number (take 2 (drop 3 v)), number (drop 6 v)) of
              (Some d, Some m, Some y) \<Rightarrow>
                if 1 \<le> y \<and> 1 \<le> m \<and> m \<le> 12 \<and> 1 \<le> d \<and> d \<le> days_in_month y m
                then Some (y, m, d) else None
            | _ \<Rightarrow> None)
      else None)"

definition sample_time :: "string \<Rightarrow> (int \<times> int \<times> int) option" where
  "sample_time v =
     (if length v = 8 \<and> v ! 2 = CHR ''.'' \<and> v ! 5 = CHR ''.''
      then (case (number (take 2 v), number (take 2 (drop 3 v)), number (drop 6 v)) of
              (Some h, Some m, Some s) \<Rightarrow>
                if h < 24 \<and> m < 60 \<and> s < 62 then Some (h, m, s) else None
            | _ \<Rightarrow> None)
      else None)"

definition sample_strptime :: "string \<Rightarrow> string \<Rightarrow> error + datetime" where
  "sample_strptime v fmt =
     (if fmt = ''%d.%m.%Y'' then
        (case sample_date v of
           Some (y, m, d) \<Rightarrow>
             Inr \<lparr>year = y, month = m, day = d, hour = 0, minute = 0, second = 0, tzinfo = None\<rparr>
         | None \<Rightarrow> Inl ValueError)
      else if fmt = ''%d.%m.%Y %H.%M.%S'' \<and> length v = 19 \<and> v ! 10 = CHR '' '' then
        (case (sample_date (take 10 v), sample_time (drop 11 v)) of
           (Some (y, m, d), Some (h, mi, s)) \<Rightarrow>
             Inr \<lparr>year = y, month = m, day = d, hour = h, minute = mi, second = s, tzinfo = None\<rparr>
         | _ \<Rightarrow> Inl ValueError)
      else Inl ValueError)"

fun pad :: "nat \<Rightarrow> int \<Rightarrow> string" where
  "pad 0 n = []"
| "pad (Suc k) n = pad k (n div 10) @ [''0123456789'' ! nat (n mod 10)]"

definition sample_strftime :: "datetime \<Rightarrow> string \<Rightarrow> string" where
  "sample_strftime d fmt =
     (if fmt = ''%Y%m%d'' then pad 4 (year d) @ pad 2 (month d) @ pad 2 (day d) else [])"

definition sample_Decimal :: "string \<Rightarrow> error + decimal" where
  "sample_Decimal v =
     (let negative = (take 1 v = ''-'');
          body = (if take 1 v = ''-'' \<or> take 1 v = ''+'' then drop 1 v else v);
          whole = takeWhile (\<lambda>c. c \<noteq> CHR ''.'') body;
          frac = drop (Suc (length whole)) body
      in if v = ''NaN'' then Inr NaN
         else if whole \<noteq> [] \<and> list_all is_digit whole \<and> list_all is_digit frac
                 \<and> (length whole < length body \<longrightarrow> frac \<noteq> [])
         then (case number (whole @ frac) of
                 Some n \<Rightarrow> Inr (Finite negative (nat n) (- int (length frac)))
               | None \<Rightarrow> Inl InvalidOperation)
         else Inl InvalidOperation)"

fun sample_decimal_str :: "decimal \<Rightarrow> string" where
  "sample_decimal_str (Finite negative n e) =
     (let k = nat (- e);
          ds = pad (max (Suc k) (length (takeWhile (\<lambda>p. 10 ^ p \<le> int n) [0..<40]))) (int n)
      in (if negative then ''-'' else '''')
         @ take (length ds - k) ds @ (if k = 0 then '''' else ''.'' @ drop (length ds - k) ds))"
| "sample_decimal_str (Infinity negative) = (if negative then ''-Infinity'' else ''Infinity'')"
| "sample_decimal_str NaN = ''NaN''"

text \<open>The sample IBAN check: two letters, two digits, 11 to 30 further letters or digits.
  The BIC check: eight or eleven letters or digits, the first six of them letters.\<close>

definition is_upper_or_digit :: "char \<Rightarrow> bool" where
  "is_upper_or_digit c = (is_upper c \<or> is_digit c)"

definition sample_IBAN :: "string \<Rightarrow> error + iban" where
  "sample_IBAN v =
     (if 15 \<le> length v \<and> length v \<le> 34 \<and> list_all is_upper (take 2 v)
         \<and> list_all is_digit (take 2 (drop 2 v)) \<and> list_all is_upper_or_digit (drop 4 v)
      then Inr v else Inl SchwiftyException)"

definition sample_BIC :: "string \<Rightarrow> error + bic" where
  "sample_BIC v =
     (if (length v = 8 \<or> length v = 11) \<and> list_all is_upper (take 6 v)
         \<and> list_all is_upper_or_digit (drop 6 v)
      then Inr v else Inl SchwiftyException)"

definition sample_library :: library where
  "sample_library =
     \<lparr>strptime = sample_strptime,
      strftime = sample_strftime,
      Decimal = sample_Decimal,
      decimal_str = sample_decimal_str,
      schwifty_IBAN = sample_IBAN,
      schwifty_BIC = sample_BIC,
      iban_bic = (\<lambda>i. None),
      bic_branch_code = (\<lambda>b. if length b = 11 then Some (drop 8 b) else None),
      StatementLine_trntype = Some ''CHECK''\<rparr>"

text \<open>A row of the statement file, from its five columns.\<close>

definition make_row :: "string \<Rightarrow> string \<Rightarrow> string \<Rightarrow> string \<Rightarrow> string \<Rightarrow> row" where
  "make_row b w v u c =
     map_of [(Buchungstag, b), (Wertstellungstag, w), (Verwendungszweck, v), (Umsatz, u),
             (Waehrung, c)]"

text \<open>Three rows for the worked examples: a card payment that also carries a \<open>SVWZ+\<close>
  segment, a plain row whose purpose text starts with a space, and a card payment whose
  date and IBAN cannot be decoded.\<close>

definition card_reference :: string where
  "card_reference =
     ''X01.02.2024 12.34.56 OFFLIN EUR 1,00 EC 1 PAN 1 A123 01/2025 GIROCARD ABCD/EFGH/ SVWZ+ foo''"

definition card_row :: row where
  "card_row = make_row ''02.02.2024'' ''01.02.2024'' card_reference ''-1,00'' ''EUR''"

definition plain_row :: row where
  "plain_row = make_row ''02.02.2024'' ''01.02.2024'' '' x'' ''0,00'' ''EUR''"

definition failing_reference :: string where
  "failing_reference =
     ''X99.99.2024 12.34.56 OFFLIN EUR 1,00 EC 1 PAN 1 A123 01/2025 GIROCARD ABCD/EFGH/ IBAN+ XX''"

definition failing_row :: row where
  "failing_row = make_row ''02.02.2024'' ''01.02.2024'' failing_reference ''-1,00'' ''EUR''"

definition booked :: datetime where
  "booked = \<lparr>year = 2024, month = 2, day = 2, hour = 0, minute = 0, second = 0,
              tzinfo = Some TIMEZONE\<rparr>"

definition valued :: datetime where
  "valued = \<lparr>year = 2024, month = 2, day = 1, hour = 0, minute = 0, second = 0,
              tzinfo = Some TIMEZONE\<rparr>"

definition paid :: datetime where
  "paid = \<lparr>year = 2024, month = 2, day = 1, hour = 12, minute = 34, second = 56,
            tzinfo = None\<rparr>"

text \<open>A row of transactions that are not yet executed.\<close>

definition pending_row :: row where
  "pending_row = make_row not_yet_executed [] [] [] []"

text \<open>The statement lines the parser produces for the three rows with the sample library
  (the digests are those of \<open>hashlib\<close>).\<close>

definition card_line :: statement_line where
  "card_line =
     \<lparr>line_id = Some ''2024020112ee091a089170d586126281f0c8aa0f26bd9dcf'',
      date = Some valued, memo = Some ''X'', amount = Some (Finite True 100 (- 2)),
      date_user = Some paid, payee = Some ''A'', check_no = None, trntype = Some ''POS'',
      bank_account_to = None, currency = Some ''EUR''\<rparr>"

definition plain_line :: statement_line where
  "plain_line =
     \<lparr>line_id = Some ''20240201dad09afe5ca143a56a82cac68c44cee6d5ed0011'',
      date = Some valued, memo = Some '' x'', amount = Some (Finite False 0 (- 2)),
      date_user = Some booked, payee = None, check_no = None, trntype = Some ''CHECK'',
      bank_account_to = None, currency = Some ''EUR''\<rparr>"

definition failing_line :: statement_line where
  "failing_line =
     \<lparr>line_id = Some ''20240201e27c2ee24a542ab56b071e5e345dd242091ee267'',
      date = Some valued, memo = Some ''X'', amount = Some (Finite True 100 (- 2)),
      date_user = Some booked, payee = Some ''A'', check_no = None, trntype = Some ''POS'',
      bank_account_to = None, currency = Some ''EUR''\<rparr>"

section \<open>The line normalizer meets its contract\<close>

lemma drop_space_at_beyond: "length v \<le> i \<Longrightarrow> drop_space_at v i = v"
  by (simp add: drop_space_at_def)

lemma foldl_drop_space_beyond:
  "(\<And>i. i \<in> set js \<Longrightarrow> length v \<le> i) \<Longrightarrow> foldl drop_space_at v js = v"
  by (induction js) (simp_all add: drop_space_at_beyond)

lemma length_drop_space_at: "length (drop_space_at v i) \<le> length v"
  by (auto simp: drop_space_at_def)

lemma upt_shift: "map f [0..<Suc n] = f 0 # map (\<lambda>k. f (Suc k)) [0..<n]"
  by (simp add: upt_conv_Cons map_Suc_upt [symmetric] del: upt_Suc)

lemma rsrw_loop_fold:
  "length v \<le> i + 54 * n \<Longrightarrow>
   rsrw_loop i v = foldl drop_space_at v (map (\<lambda>k. i + 54 * k) [0..<n])"
proof (induction i v arbitrary: n rule: rsrw_loop.induct)
  case (1 i v)
  show ?case
  proof (cases "i < length v")
    case False
    then have "foldl drop_space_at v (map (\<lambda>k. i + 54 * k) [0..<n]) = v"
      by (intro foldl_drop_space_beyond) auto
    with False show ?thesis by (simp add: rsrw_loop.simps [of i v])
  next
    case True
    with "1.prems" obtain m where n: "n = Suc m" by (cases n) auto
    let ?v' = "if v ! i = CHR '' '' then take i v @ drop (i + 1) v else v"
    have v': "?v' = drop_space_at v i" using True by (simp add: drop_space_at_def)
    have "length ?v' \<le> (i + 54) + 54 * m"
      using "1.prems" n length_drop_space_at [of v i] unfolding v' by simp
    from "1.IH" [OF True this]
    have ih: "rsrw_loop (i + 54) ?v' = foldl drop_space_at ?v' (map (\<lambda>k. i + 54 + 54 * k) [0..<m])" .
    have shift: "map (\<lambda>k. i + 54 * k) [0..<Suc m] = i # map (\<lambda>k. i + 54 + 54 * k) [0..<m]"
      unfolding upt_shift [of "\<lambda>k. i + 54 * k" m] by (simp add: add.assoc)
    have "rsrw_loop i v = rsrw_loop (i + 54) ?v'"
      using True by (subst rsrw_loop.simps) simp
    also have "\<dots> = foldl drop_space_at (drop_space_at v i) (map (\<lambda>k. i + 54 + 54 * k) [0..<m])"
      using ih unfolding v' .
    also have "\<dots> = foldl drop_space_at v (map (\<lambda>k. i + 54 * k) [0..<Suc m])"
      unfolding shift by simp
    finally show ?thesis unfolding n .
  qed
qed

text \<open>
  Claim C7.  On a string of fewer than 54 characters the line normalizer returns the string
  unchanged.  On every string it computes what the contract describes: it visits every
  54th character position from left to right and removes the character there if it is a
  space, each position being taken in the string as shortened by the removals before it.
\<close>

theorem normalizer_contract:
  "(length v < 54 \<longrightarrow> remove_superfluous_reference_whitespace v = v)
   \<and> remove_superfluous_reference_whitespace v = normalizer_spec v"
proof
  show "length v < 54 \<longrightarrow> remove_superfluous_reference_whitespace v = v"
    by (simp add: remove_superfluous_reference_whitespace_def rsrw_loop.simps [of 53 v])
  show "remove_superfluous_reference_whitespace v = normalizer_spec v"
    unfolding remove_superfluous_reference_whitespace_def normalizer_spec_def every_54th_def
    by (rule rsrw_loop_fold) simp
qed

theorem normalizer_contract_witness:
  "length ''SVWZ+ Rent payment'' < 54
   \<and> remove_superfluous_reference_whitespace ''SVWZ+ Rent payment'' = ''SVWZ+ Rent payment''"
  using normalizer_contract [of "''SVWZ+ Rent payment''"] by simp

section \<open>The default-segment sub-parser\<close>

lemma endswith_append:
  "length s \<le> length l \<Longrightarrow> endswith (p @ l) s = (drop (length l - length s) l = s)"
  by (simp add: endswith_def)

text \<open>
  Claim C5.  When the text ends with one of the three transaction-type labels, the
  sub-parser returns the empty string as the residual default value and two fields: the
  entire text before the label as \<open>recipient\<close> and the label as \<open>type\<close>.  (The text with
  the suffix removed is what \<open>recipient\<close> receives; the residual itself is empty, as the
  note in the specification says.)
\<close>

theorem suffix_label_split:
  "label \<in> set type_suffixes \<Longrightarrow>
   parse_default_field (prefix @ label) = ('''', [(''recipient'', prefix), (''type'', label)])"
proof -
  assume "label \<in> set type_suffixes"
  then have "find (endswith (prefix @ label)) type_suffixes = Some label"
    by (auto simp: type_suffixes_def endswith_append)
  then show ?thesis by (simp add: parse_default_field_def)
qed

theorem suffix_label_split_witness:
  "''SEPA-LOHN/GEHALT'' \<in> set type_suffixes
   \<and> parse_default_field ''ACME GmbH SEPA-LOHN/GEHALT''
       = ('''', [(''recipient'', ''ACME GmbH ''), (''type'', ''SEPA-LOHN/GEHALT'')])"
  using suffix_label_split [of "''SEPA-LOHN/GEHALT''" "''ACME GmbH ''"]
  by (simp add: type_suffixes_def)

section \<open>The tokenizer on references without tag markers\<close>

lemma rent_eval:
  "re_finditer tag_pattern ''  Rent payment '' = []"
  "find (endswith (strip ''  Rent payment '')) type_suffixes = None"
  "re_search card_payment_pattern (strip ''  Rent payment '') = None"
  "strip ''  Rent payment '' = ''Rent payment''"
  by code_simp+

text \<open>
  Claim C4, as amended.  For a reference in which the tag-marker pattern does not occur,
  the tokenizer yields the fields the default-segment sub-parser derives from the trimmed
  reference, followed by one \<open>default\<close> pair that carries the sub-parser's residual value.
  When the trimmed reference neither ends with a transaction-type label nor contains the
  card-payment pattern, that is exactly one pair: \<open>default\<close> with the trimmed reference.
\<close>

theorem untagged_reference:
  assumes "re_finditer tag_pattern reference = []"
  shows "parse_reference_fields reference
           = snd (parse_default_field (strip reference))
             @ [(''default'', fst (parse_default_field (strip reference)))]
         \<and> (find (endswith (strip reference)) type_suffixes = None
              \<and> re_search card_payment_pattern (strip reference) = None
            \<longrightarrow> parse_reference_fields reference = [(''default'', strip reference)])"
  using assms
  by (simp add: parse_reference_fields_def emit_def parse_default_field_def split: prod.splits)

theorem untagged_reference_witness:
  "re_finditer tag_pattern ''  Rent payment '' = []
   \<and> find (endswith (strip ''  Rent payment '')) type_suffixes = None
   \<and> re_search card_payment_pattern (strip ''  Rent payment '') = None
   \<and> parse_reference_fields ''  Rent payment '' = [(''default'', ''Rent payment'')]"
proof -
  from untagged_reference [OF rent_eval(1)] rent_eval(2,3)
  have "parse_reference_fields ''  Rent payment '' = [(''default'', strip ''  Rent payment '')]"
    by blast
  then show ?thesis using rent_eval by simp
qed


text \<open>
  The claim as first stated (always exactly one pair, \<open>default\<close> with the trimmed
  reference) fails on a reference that consists of a transaction-type label: no tag marker
  occurs in it, and the tokenizer yields three pairs, the \<open>default\<close> one being empty.
\<close>

theorem single_default_pair_counterexample:
  "re_finditer tag_pattern ''SEPA-LOHN/GEHALT'' = []
   \<and> parse_reference_fields ''SEPA-LOHN/GEHALT''
       = [(''recipient'', ''''), (''type'', ''SEPA-LOHN/GEHALT''), (''default'', '''')]
   \<and> parse_reference_fields ''SEPA-LOHN/GEHALT'' \<noteq> [(''default'', strip ''SEPA-LOHN/GEHALT'')]"
  by code_simp

section \<open>The sentinel tag occurs once\<close>

lemma named_groups_card:
  "named_groups card_payment_pattern =
     [''card_payment_reference'', ''card_payment_datetime'', ''card_payment_currency'',
      ''card_payment_amount'', ''pan'', ''recipient'', ''card_expiration'', ''type'',
      ''card_data_entry_method'', ''card_payment_auth_method'']"
  by (simp add: card_payment_pattern_def digits_def)

lemma sub_parser_names:
  "fst ` set (snd (parse_default_field v)) \<subseteq>
     {''card_payment_reference'', ''card_payment_datetime'', ''card_payment_currency'',
      ''card_payment_amount'', ''pan'', ''recipient'', ''card_expiration'', ''type'',
      ''card_data_entry_method'', ''card_payment_auth_method''}"
proof -
  have "map fst (groupdict_items card_payment_pattern s c) = named_groups card_payment_pattern"
    for s c by (simp add: groupdict_items_def comp_def)
  then have g: "fst ` set (groupdict_items card_payment_pattern s c)
                  = set (named_groups card_payment_pattern)" for s c
    by (metis set_map)
  show ?thesis
    unfolding parse_default_field_def
    by (auto split: option.splits prod.splits simp: g named_groups_card simp del: set_map)
qed

lemma emit_default_count:
  "length (filter (\<lambda>p. fst p = ''default'') (emit field v)) = (if field = ''default'' then 1 else 0)"
proof -
  have "filter (\<lambda>p. fst p = ''default'') (snd (parse_default_field v)) = []"
    using sub_parser_names [of v] by (auto simp: filter_empty_conv)
  then show ?thesis by (auto simp: emit_def split: prod.splits)
qed

lemma rep_counts_bound: "n \<in> set (rep_counts k lo (Some h) g rest) \<Longrightarrow> n \<le> h"
  by (auto simp: rep_counts_def Let_def split: if_splits)

lemma rmatch_tag:
  assumes "(j, c) \<in> set (rmatch tag_pattern s i [])"
  shows "\<exists>k. c = [(Num 1, i, k)] \<and> k \<le> i + 5"
  using assms
  by (auto simp: tag_pattern_def split: if_splits dest!: rep_counts_bound)

lemma search_from_mem:
  "search_from r s p = Some (i, j, c) \<Longrightarrow> (j, c) \<in> set (rmatch r s i [])"
proof (induction r s p rule: search_from.induct)
  case (1 r s p)
  show ?case
  proof (cases "rmatch r s p []")
    case Nil
    with "1.prems" "1.IH" show ?thesis
      by (subst (asm) search_from.simps) (auto split: if_splits)
  next
    case (Cons a as)
    with "1.prems" show ?thesis
      by (subst (asm) search_from.simps) (auto split: if_splits)
  qed
qed

lemma finditer_from_mem:
  "m \<in> set (finditer_from r s p) \<Longrightarrow> \<exists>q. search_from r s q = Some m"
proof (induction r s p rule: finditer_from.induct)
  case (1 r s p)
  show ?case
  proof (cases "search_from r s p")
    case None
    with "1.prems" show ?thesis by (subst (asm) finditer_from.simps) simp
  next
    case (Some a)
    obtain i j c where a: "a = (i, j, c)" by (cases a)
    from "1.prems" Some a
    have "m = (i, j, c) \<or> (p < j \<and> j \<le> length s \<and> m \<in> set (finditer_from r s j))"
      by (subst (asm) finditer_from.simps) (auto split: if_splits)
    then show ?thesis
    proof
      assume "m = (i, j, c)"
      with Some a show ?thesis by auto
    next
      assume "p < j \<and> j \<le> length s \<and> m \<in> set (finditer_from r s j)"
      with "1.IH" Some a show ?thesis by auto
    qed
  qed
qed

text \<open>
  Every named group of the card-payment pattern takes part in every match of the pattern,
  so no value of \<open>groupdict()\<close> is \<open>None\<close> and \<open>group\<close> never falls back to the empty
  string for it.
\<close>

lemma rmatch_captures:
  "(j, c') \<in> set (rmatch r s i c) \<Longrightarrow> set (always_groups r) \<union> fst ` set c \<subseteq> fst ` set c'"
  "(j, c') \<in> set (rmatch_seq rs s i c) \<Longrightarrow>
     set (concat (map always_groups rs)) \<union> fst ` set c \<subseteq> fst ` set c'"
proof (induction r s i c and rs s i c arbitrary: j c' and j c' rule: rmatch_rmatch_seq.induct)
  case (1 l s i c)
  then show ?case by (auto split: if_splits)
next
  case (2 k lo hi greedy s i c)
  then show ?case by auto
next
  case (3 rs s i c)
  then show ?case by simp
next
  case (4 a b s i c)
  from "4.prems" have "(j, c') \<in> set (rmatch a s i c) \<or> (j, c') \<in> set (rmatch b s i c)"
    by simp
  then show ?case
  proof
    assume "(j, c') \<in> set (rmatch a s i c)"
    from "4.IH"(1) [OF this] show ?thesis by auto
  next
    assume "(j, c') \<in> set (rmatch b s i c)"
    from "4.IH"(2) [OF this] show ?thesis by auto
  qed
next
  case (5 g r s i c)
  from "5.prems" obtain c0 where m: "(j, c0) \<in> set (rmatch r s i c)" and c': "c' = (g, i, j) # c0"
    by auto
  from "5.IH" [OF m] show ?case unfolding c' by auto
next
  case (6 s i c)
  then show ?case by (auto split: if_splits)
next
  case (7 s i c)
  then show ?case by simp
next
  case (8 r rs s i c)
  from "8.prems" obtain j0 c0 where a: "(j0, c0) \<in> set (rmatch r s i c)"
    and b: "(j, c') \<in> set (rmatch_seq rs s j0 c0)"
    by auto
  from "8.IH"(1) [OF a]
  have 1: "set (always_groups r) \<subseteq> fst ` set c0" "fst ` set c \<subseteq> fst ` set c0" by auto
  from "8.IH"(2) [OF a _ b]
  have 2: "set (concat (map always_groups rs)) \<subseteq> fst ` set c'" "fst ` set c0 \<subseteq> fst ` set c'"
    by auto
  have "set (concat (map always_groups (r # rs)))
          = set (always_groups r) \<union> set (concat (map always_groups rs))"
    by simp
  with 1 2 show ?case by blast
qed

lemma always_groups_card:
  "always_groups card_payment_pattern = map Name (named_groups card_payment_pattern)"
  by (simp add: card_payment_pattern_def digits_def)

lemma card_groups_captured:
  assumes "re_search card_payment_pattern v = Some (start, e, c)"
    and "n \<in> set (named_groups card_payment_pattern)"
  shows "map_of c (Name n) \<noteq> None"
proof -
  from assms(1) have "(e, c) \<in> set (rmatch card_payment_pattern v start [])"
    unfolding re_search_def by (rule search_from_mem)
  from rmatch_captures(1) [OF this]
  have "set (always_groups card_payment_pattern) \<subseteq> fst ` set c" by simp
  with assms(2) have "Name n \<in> fst ` set c"
    unfolding always_groups_card by auto
  then show ?thesis by (simp add: map_of_eq_None_iff)
qed

lemma tag_never_default:
  assumes "m \<in> set (finditer_from tag_pattern s p)"
  shows "group s (snd (snd m)) (Num 1) \<noteq> ''default''"
proof -
  obtain i j c where m: "m = (i, j, c)" by (cases m)
  from finditer_from_mem [OF assms] m obtain q where "search_from tag_pattern s q = Some (i, j, c)"
    by auto
  from rmatch_tag [OF search_from_mem [OF this]]
  obtain k where c: "c = [(Num 1, i, k)]" and k: "k \<le> i + 5" by blast
  have "length (group s c (Num 1)) \<le> 5" using k by (simp add: c group_def)
  then show ?thesis using m by auto
qed

lemma segments_default_count:
  "(\<And>m. m \<in> set ms \<Longrightarrow> group reference (snd (snd m)) (Num 1) \<noteq> ''default'') \<Longrightarrow>
   length (filter (\<lambda>p. fst p = ''default'') (segments reference field start ms))
     = (if field = ''default'' then 1 else 0)"
proof (induction ms arbitrary: field start)
  case Nil
  show ?case by (simp add: emit_default_count)
next
  case (Cons m ms)
  obtain e n c where m: "m = (e, n, c)" by (cases m)
  have "group reference c (Num 1) \<noteq> ''default''" using Cons.prems [of m] m by simp
  moreover have "length (filter (\<lambda>p. fst p = ''default'')
                   (segments reference (group reference c (Num 1)) n ms))
                 = (if group reference c (Num 1) = ''default'' then 1 else 0)"
    by (rule Cons.IH) (rule Cons.prems, simp)
  ultimately show ?case by (simp add: m emit_default_count)
qed

text \<open>
  Claim C10.  For every reference string, the empty one included, exactly one of the pairs
  the tokenizer yields has the tag \<open>default\<close>: the tags taken from the reference are at
  most five characters long, and the field names of the sub-parser are fixed names other
  than \<open>default\<close>.
\<close>

theorem exactly_one_default:
  "length (filter (\<lambda>p. fst p = ''default'') (parse_reference_fields reference)) = 1"
  unfolding parse_reference_fields_def re_finditer_def
  by (subst segments_default_count) (auto dest: tag_never_default)

section \<open>The parser on the three worked rows\<close>

text \<open>The results below are computed from the definitions, the digests included.\<close>

lemma card_tokens:
  "parse_reference_fields (remove_superfluous_reference_whitespace card_reference) =
     [(''card_payment_reference'', ''X''), (''card_payment_datetime'', ''01.02.2024 12.34.56''),
      (''card_payment_currency'', ''EUR''), (''card_payment_amount'', ''1,00''),
      (''pan'', ''1''), (''recipient'', ''A''), (''card_expiration'', ''01/2025''),
      (''type'', ''GIROCARD''), (''card_data_entry_method'', ''ABCD''),
      (''card_payment_auth_method'', ''EFGH''), (''default'', ''''), (''SVWZ+'', ''foo'')]"
  by code_simp

lemma failing_tokens:
  "parse_reference_fields (remove_superfluous_reference_whitespace failing_reference) =
     [(''card_payment_reference'', ''X''), (''card_payment_datetime'', ''99.99.2024 12.34.56''),
      (''card_payment_currency'', ''EUR''), (''card_payment_amount'', ''1,00''),
      (''pan'', ''1''), (''recipient'', ''A''), (''card_expiration'', ''01/2025''),
      (''type'', ''GIROCARD''), (''card_data_entry_method'', ''ABCD''),
      (''card_payment_auth_method'', ''EFGH''), (''default'', ''''), (''IBAN+'', ''XX'')]"
  by code_simp

lemma plain_tokens:
  "parse_reference_fields '' x'' = [(''default'', ''x'')]"
  "remove_superfluous_reference_whitespace '' x'' = '' x''"
  by code_simp+

lemma card_row_result: "parse_record sample_library card_row = Inr (card_line, [])"
  by code_simp

lemma plain_row_result: "parse_record sample_library plain_row = Inr (plain_line, [])"
  by code_simp

lemma failing_row_result:
  "parse_record sample_library failing_row
     = Inr (failing_line, [IbanWarning ''XX'', DatetimeWarning ''99.99.2024 12.34.56''])"
  by code_simp

lemma sample_dates:
  "parse_datetime sample_library ''02.02.2024'' = Inr booked"
  "parse_datetime sample_library ''01.02.2024'' = Inr valued"
  "strptime sample_library ''01.02.2024 12.34.56'' ''%d.%m.%Y %H.%M.%S'' = Inr paid"
  "strptime sample_library ''99.99.2024 12.34.56'' ''%d.%m.%Y %H.%M.%S'' = Inl ValueError"
  by code_simp+

lemma sample_amounts:
  "parse_decimal sample_library ''-1,00'' = Inr (Finite True 100 (- 2))"
  "parse_decimal sample_library ''0,00'' = Inr (Finite False 0 (- 2))"
  by code_simp+

lemma columns:
  "make_row b w v u c Buchungstag = Some b"
  "make_row b w v u c Wertstellungstag = Some w"
  "make_row b w v u c Verwendungszweck = Some v"
  "make_row b w v u c Umsatz = Some u"
  "make_row b w v u c Waehrung = Some c"
  by (simp_all add: make_row_def Buchungstag_def Wertstellungstag_def Verwendungszweck_def
        Umsatz_def Waehrung_def)

lemma card_columns:
  "card_row Buchungstag = Some ''02.02.2024''"
  "card_row Wertstellungstag = Some ''01.02.2024''"
  "card_row Verwendungszweck = Some card_reference"
  "card_row Umsatz = Some ''-1,00''"
  "card_row Waehrung = Some ''EUR''"
  by (simp_all add: card_row_def columns)

lemma plain_columns:
  "plain_row Buchungstag = Some ''02.02.2024''"
  "plain_row Wertstellungstag = Some ''01.02.2024''"
  "plain_row Verwendungszweck = Some '' x''"
  "plain_row Umsatz = Some ''0,00''"
  "plain_row Waehrung = Some ''EUR''"
  by (simp_all add: plain_row_def columns)

lemma failing_columns:
  "failing_row Buchungstag = Some ''02.02.2024''"
  "failing_row Wertstellungstag = Some ''01.02.2024''"
  "failing_row Verwendungszweck = Some failing_reference"
  "failing_row Umsatz = Some ''-1,00''"
  "failing_row Waehrung = Some ''EUR''"
  by (simp_all add: failing_row_def columns)

lemma sample_trntype: "StatementLine_trntype sample_library = Some ''CHECK''"
  by (simp add: sample_library_def)

lemma card_lookups:
  "get_truthy (decoded_fields card_reference) REF = Some ''foo''"
  "get_truthy (decoded_fields card_reference) ''card_payment_reference'' = Some ''X''"
  "get_truthy (decoded_fields card_reference) ''card_payment_datetime''
     = Some ''01.02.2024 12.34.56''"
  by (simp_all add: decoded_fields_def card_tokens dict_def get_truthy_def REF_def)

lemma failing_lookups:
  "get_truthy (decoded_fields failing_reference) IBAN = Some ''XX''"
  "get_truthy (decoded_fields failing_reference) ''card_payment_datetime''
     = Some ''99.99.2024 12.34.56''"
  by (simp_all add: decoded_fields_def failing_tokens dict_def get_truthy_def IBAN_def)

lemma plain_lookups:
  "get_truthy (decoded_fields '' x'') REF = None"
  "get_truthy (decoded_fields '' x'') ''card_payment_reference'' = None"
  "get_truthy (decoded_fields '' x'') ''card_payment_datetime'' = None"
  "get_truthy (decoded_fields '' x'') ''type'' = None"
  by (simp_all add: decoded_fields_def plain_tokens dict_def get_truthy_def REF_def)

lemma trimmed_digest:
  "strftime sample_library valued ''%Y%m%d''
   @ sha1_hexdigest (utf8_encode
       (strip '' x'' @ '' '' @ decimal_str sample_library (Finite False 0 (- 2)) @ '' '' @ ''EUR''))
   = ''2024020184ef3759bb03028114b8e44cbd3068117d36dc57''"
  by code_simp

lemma sample_raises: "raises_as_documented sample_library"
  unfolding raises_as_documented_def
proof (intro conjI allI impI)
  fix v e assume "schwifty_IBAN sample_library v = Inl e"
  then show "e = SchwiftyException"
    by (simp add: sample_library_def sample_IBAN_def split: if_splits)
next
  fix v e assume "schwifty_BIC sample_library v = Inl e"
  then show "e = SchwiftyException"
    by (simp add: sample_library_def sample_BIC_def split: if_splits)
next
  fix v f e assume "strptime sample_library v f = Inl e"
  then show "e = ValueError"
    by (simp add: sample_library_def sample_strptime_def
          split: if_splits option.splits prod.splits)
qed

lemma sample_iban_xx:
  "schwifty_IBAN sample_library (replace_char CHR '' '' '''' ''XX'') = Inl SchwiftyException"
  "replace_char CHR '' '' '''' ''XX'' = ''XX''"
  by code_simp+

lemma pending_column: "pending_row Buchungstag = Some not_yet_executed"
  by (simp add: pending_row_def columns)

lemma booking_day_not_pending: "''02.02.2024'' \<noteq> not_yet_executed"
  by (simp add: not_yet_executed_def)

section \<open>What each step of the assembler changes\<close>

lemma set_memo_eq:
  "set_memo f st =
     st\<lparr>memo := (case get_truthy f ''card_payment_reference'' of
                    Some c \<Rightarrow> Some c
                  | None \<Rightarrow> (case get_truthy f REF of Some r \<Rightarrow> Some r | None \<Rightarrow> memo st))\<rparr>"
  by (simp add: set_memo_def split: option.splits)

lemma set_bank_account_frame:
  assumes "set_bank_account lib f st = Inr (st', ws)"
  shows "line_id st' = line_id st" "date st' = date st" "memo st' = memo st"
    "amount st' = amount st" "date_user st' = date_user st" "payee st' = payee st"
    "check_no st' = check_no st" "trntype st' = trntype st" "currency st' = currency st"
  using assms
  by (auto simp: set_bank_account_def Let_def split: option.splits sum.splits if_splits prod.splits)

lemma set_date_user_eq:
  assumes "set_date_user lib f st = Inr (st', ws)"
  shows "st' = st\<lparr>date_user :=
           (case get_truthy f ''card_payment_datetime'' of
              None \<Rightarrow> date_user st
            | Some t \<Rightarrow> (case strptime lib t ''%d.%m.%Y %H.%M.%S'' of
                          Inr d \<Rightarrow> Some d | Inl e \<Rightarrow> date_user st))\<rparr>"
  using assms
  by (auto simp: set_date_user_def split: option.splits sum.splits if_splits)

lemma set_trntype_frame:
  assumes "set_trntype f amt st = Inr st'"
  shows "line_id st' = line_id st" "date st' = date st" "memo st' = memo st"
    "amount st' = amount st" "date_user st' = date_user st" "payee st' = payee st"
    "check_no st' = check_no st" "bank_account_to st' = bank_account_to st"
    "currency st' = currency st"
  using assms
  by (auto simp: set_trntype_def Let_def split: option.splits sum.splits)

lemma set_trntype_value:
  assumes "set_trntype f amt st = Inr st'"
    and "case get_truthy f ''type'' of None \<Rightarrow> trntype st = None
         | Some t \<Rightarrow> find_transaction_type t = None"
  shows "trntype st' = Some (if decimal_gt_zero amt = Inr True then ''CREDIT'' else ''DEBIT'')"
  using assms
  by (auto simp: set_trntype_def Let_def split: option.splits sum.splits)

lemma set_check_no_eq:
  "set_check_no f st =
     st\<lparr>check_no := (case get_truthy f END_TO_END_REF of None \<Rightarrow> check_no st | Some v \<Rightarrow> Some v)\<rparr>"
  by (simp add: set_check_no_def split: option.splits)

lemma set_payee_eq:
  "set_payee f st =
     st\<lparr>payee := (case get_truthy f ''recipient'' of None \<Rightarrow> payee st | Some v \<Rightarrow> Some v)\<rparr>"
  by (simp add: set_payee_def split: option.splits)

lemma apply_fields_steps:
  assumes "apply_fields lib f amt st = Inr (st', ws)"
  obtains s1 w1 s2 w2 s3 where
    "set_bank_account lib f (set_memo f st) = Inr (s1, w1)"
    "set_date_user lib f (set_check_no f s1) = Inr (s2, w2)"
    "set_trntype f amt s2 = Inr s3"
    "st' = set_payee f s3" "ws = w1 @ w2"
  using assms unfolding apply_fields_def
  by (auto split: sum.splits prod.splits)

lemma apply_fields_memo:
  assumes "apply_fields lib f amt st = Inr (st', ws)"
  shows "memo st' = memo (set_memo f st)"
proof -
  from assms obtain s1 w1 s2 w2 s3 where
    a: "set_bank_account lib f (set_memo f st) = Inr (s1, w1)"
    and b: "set_date_user lib f (set_check_no f s1) = Inr (s2, w2)"
    and c: "set_trntype f amt s2 = Inr s3" and d: "st' = set_payee f s3"
    by (rule apply_fields_steps)
  have "memo st' = memo s3" by (simp add: d set_payee_eq)
  also have "\<dots> = memo s2" by (rule set_trntype_frame [OF c])
  also have "\<dots> = memo s1" by (simp add: set_date_user_eq [OF b] set_check_no_eq)
  also have "\<dots> = memo (set_memo f st)" by (rule set_bank_account_frame [OF a])
  finally show ?thesis .
qed

lemma apply_fields_kept:
  assumes "apply_fields lib f amt st = Inr (st', ws)"
  shows "line_id st' = line_id st" "date st' = date st" "amount st' = amount st"
    "currency st' = currency st"
proof -
  from assms obtain s1 w1 s2 w2 s3 where
    a: "set_bank_account lib f (set_memo f st) = Inr (s1, w1)"
    and b: "set_date_user lib f (set_check_no f s1) = Inr (s2, w2)"
    and c: "set_trntype f amt s2 = Inr s3" and d: "st' = set_payee f s3"
    by (rule apply_fields_steps)
  show "line_id st' = line_id st"
    using set_bank_account_frame(1) [OF a] set_trntype_frame(1) [OF c]
    by (simp add: d set_payee_eq set_date_user_eq [OF b] set_check_no_eq set_memo_eq)
  show "date st' = date st"
    using set_bank_account_frame(2) [OF a] set_trntype_frame(2) [OF c]
    by (simp add: d set_payee_eq set_date_user_eq [OF b] set_check_no_eq set_memo_eq)
  show "amount st' = amount st"
    using set_bank_account_frame(4) [OF a] set_trntype_frame(4) [OF c]
    by (simp add: d set_payee_eq set_date_user_eq [OF b] set_check_no_eq set_memo_eq)
  show "currency st' = currency st"
    using set_bank_account_frame(9) [OF a] set_trntype_frame(9) [OF c]
    by (simp add: d set_payee_eq set_date_user_eq [OF b] set_check_no_eq set_memo_eq)
qed

lemma apply_fields_date_user:
  assumes "apply_fields lib f amt st = Inr (st', ws)"
  shows "date_user st' =
           (case get_truthy f ''card_payment_datetime'' of
              None \<Rightarrow> date_user st
            | Some t \<Rightarrow> (case strptime lib t ''%d.%m.%Y %H.%M.%S'' of
                          Inr d \<Rightarrow> Some d | Inl e \<Rightarrow> date_user st))"
proof -
  from assms obtain s1 w1 s2 w2 s3 where
    a: "set_bank_account lib f (set_memo f st) = Inr (s1, w1)"
    and b: "set_date_user lib f (set_check_no f s1) = Inr (s2, w2)"
    and c: "set_trntype f amt s2 = Inr s3" and d: "st' = set_payee f s3"
    by (rule apply_fields_steps)
  have "date_user (set_check_no f s1) = date_user st"
    using set_bank_account_frame(5) [OF a] by (simp add: set_memo_eq set_check_no_eq)
  moreover have "date_user st' = date_user s2"
    using set_trntype_frame(5) [OF c] by (simp add: d set_payee_eq)
  ultimately show ?thesis
    by (simp add: set_date_user_eq [OF b] split: option.splits sum.splits)
qed

lemma apply_fields_trntype:
  assumes "apply_fields lib f amt st = Inr (st', ws)"
    and "case get_truthy f ''type'' of None \<Rightarrow> trntype st = None
         | Some t \<Rightarrow> find_transaction_type t = None"
  shows "trntype st' = Some (if decimal_gt_zero amt = Inr True then ''CREDIT'' else ''DEBIT'')"
proof -
  from assms(1) obtain s1 w1 s2 w2 s3 where
    a: "set_bank_account lib f (set_memo f st) = Inr (s1, w1)"
    and b: "set_date_user lib f (set_check_no f s1) = Inr (s2, w2)"
    and c: "set_trntype f amt s2 = Inr s3" and d: "st' = set_payee f s3"
    by (rule apply_fields_steps)
  have "trntype s2 = trntype st"
    using set_bank_account_frame(8) [OF a]
    by (simp add: set_date_user_eq [OF b] set_check_no_eq set_memo_eq)
  with assms(2) have "case get_truthy f ''type'' of None \<Rightarrow> trntype s2 = None
         | Some t \<Rightarrow> find_transaction_type t = None"
    by (simp split: option.splits)
  from set_trntype_value [OF c this] show ?thesis by (simp add: d set_payee_eq)
qed

lemma parse_record_steps:
  assumes "parse_record lib line = Inr (st, ws)"
  obtains b booking_date w value_date v u amt symbol where
    "line Buchungstag = Some b" "parse_datetime lib b = Inr booking_date"
    "line Wertstellungstag = Some w" "parse_datetime lib w = Inr value_date"
    "line Verwendungszweck = Some v" "line Umsatz = Some u" "parse_decimal lib u = Inr amt"
    "line Waehrung = Some symbol"
    "apply_fields lib (decoded_fields v) amt
       (initial_line lib booking_date value_date (remove_superfluous_reference_whitespace v)
          amt symbol) = Inr (st, ws)"
  using assms unfolding parse_record_def getitem_def decoded_fields_def Let_def
  by (auto split: sum.splits option.splits)

section \<open>Memo\<close>

text \<open>
  Claim C1, as amended.  For every row the parser accepts, the memo of the record is the
  \<open>card_payment_reference\<close> value when the decoded fields hold a non-empty one; otherwise
  it is the \<open>SVWZ+\<close> (REF) value when the decoded fields hold a non-empty one; otherwise it
  stays the whitespace-normalized purpose text.  The loop of the source assigns for both
  keys in turn and does not stop at the first, so the later key wins.
\<close>

theorem memo_override:
  assumes "parse_record lib line = Inr (st, ws)" and "line Verwendungszweck = Some v"
  shows "memo st =
           Some (case get_truthy (decoded_fields v) ''card_payment_reference'' of
                   Some c \<Rightarrow> c
                 | None \<Rightarrow> (case get_truthy (decoded_fields v) REF of
                              Some r \<Rightarrow> r
                            | None \<Rightarrow> remove_superfluous_reference_whitespace v))"
proof -
  from assms(1) obtain booking_date value_date v' amt symbol where
    v': "line Verwendungszweck = Some v'"
    and ap: "apply_fields lib (decoded_fields v') amt
       (initial_line lib booking_date value_date (remove_superfluous_reference_whitespace v')
          amt symbol) = Inr (st, ws)"
    by (rule parse_record_steps)
  from v' assms(2) have "v' = v" by simp
  with apply_fields_memo [OF ap] show ?thesis
    by (simp add: set_memo_eq initial_line_def split: option.splits)
qed

theorem memo_override_witness:
  "parse_record sample_library card_row = Inr (card_line, [])
   \<and> card_row Verwendungszweck = Some card_reference
   \<and> memo card_line = Some ''X''"
  using memo_override [OF card_row_result, of card_reference]
  by (simp add: card_row_result card_columns card_lookups)

text \<open>
  The claim as first stated gives the REF value priority.  On the card-payment row, whose
  purpose text carries both a card-payment reference \<open>X\<close> and a segment \<open>SVWZ+ foo\<close>, the
  memo is \<open>X\<close>, not the REF value \<open>foo\<close>.
\<close>

theorem ref_priority_counterexample:
  "card_row Verwendungszweck = Some card_reference
   \<and> get_truthy (decoded_fields card_reference) REF = Some ''foo''
   \<and> get_truthy (decoded_fields card_reference) ''card_payment_reference'' = Some ''X''
   \<and> parse_record sample_library card_row = Inr (card_line, [])
   \<and> memo card_line = Some ''X''
   \<and> memo card_line \<noteq> Some ''foo''"
  by (simp add: card_row_result card_columns card_lookups card_line_def)

section \<open>Dates\<close>

text \<open>
  Claim C2, as amended.  For every row the parser accepts, \<open>date\<close> is the value date, and
  the user-facing date \<open>date_user\<close> is the booking date, except that when the decoded fields
  hold a \<open>card_payment_datetime\<close> that \<open>strptime\<close> parses with \<open>%d.%m.%Y %H.%M.%S\<close> it is
  that parsed datetime; when the value fails to parse, \<open>date_user\<close> stays the booking date.
\<close>

theorem date_user_rule:
  assumes "parse_record lib line = Inr (st, ws)"
    and "line Buchungstag = Some b" and "parse_datetime lib b = Inr booking_date"
    and "line Wertstellungstag = Some w" and "parse_datetime lib w = Inr value_date"
    and "line Verwendungszweck = Some v"
  shows "date st = Some value_date
         \<and> date_user st =
             Some (case get_truthy (decoded_fields v) ''card_payment_datetime'' of
                     None \<Rightarrow> booking_date
                   | Some t \<Rightarrow> (case strptime lib t ''%d.%m.%Y %H.%M.%S'' of
                                 Inr d \<Rightarrow> d | Inl e \<Rightarrow> booking_date))"
proof -
  from assms(1) obtain b' bd w' vd v' amt symbol where
    c: "line Buchungstag = Some b'" "parse_datetime lib b' = Inr bd"
       "line Wertstellungstag = Some w'" "parse_datetime lib w' = Inr vd"
       "line Verwendungszweck = Some v'"
    and ap: "apply_fields lib (decoded_fields v') amt
       (initial_line lib bd vd (remove_superfluous_reference_whitespace v') amt symbol)
         = Inr (st, ws)"
    by (rule parse_record_steps)
  from c assms(2-6) have e: "bd = booking_date" "vd = value_date" "v' = v" by simp_all
  show ?thesis
    using apply_fields_kept(2) [OF ap] apply_fields_date_user [OF ap] e
    by (simp add: initial_line_def split: option.splits sum.splits)
qed

theorem date_user_rule_witness:
  "parse_record sample_library card_row = Inr (card_line, [])
   \<and> card_row Buchungstag = Some ''02.02.2024''
   \<and> parse_datetime sample_library ''02.02.2024'' = Inr booked
   \<and> card_row Wertstellungstag = Some ''01.02.2024''
   \<and> parse_datetime sample_library ''01.02.2024'' = Inr valued
   \<and> card_row Verwendungszweck = Some card_reference
   \<and> date card_line = Some valued \<and> date_user card_line = Some paid"
  using date_user_rule [OF card_row_result, of "''02.02.2024''" booked "''01.02.2024''" valued
      card_reference]
  by (simp add: card_row_result card_columns card_lookups sample_dates)

text \<open>
  The claim as first stated takes the value date as the user-facing date of a row without
  card-payment datetime.  On the plain row, booked on 2 February 2024 with value date
  1 February 2024, the user-facing date is the booking date.
\<close>

theorem value_date_counterexample:
  "plain_row Buchungstag = Some ''02.02.2024''
   \<and> plain_row Wertstellungstag = Some ''01.02.2024''
   \<and> parse_datetime sample_library ''01.02.2024'' = Inr valued
   \<and> get_truthy (decoded_fields '' x'') ''card_payment_datetime'' = None
   \<and> parse_record sample_library plain_row = Inr (plain_line, [])
   \<and> date_user plain_line = Some booked
   \<and> date_user plain_line \<noteq> Some valued"
  by (simp add: plain_row_result plain_columns plain_lookups sample_dates plain_line_def
        booked_def valued_def)

section \<open>Identifier\<close>

text \<open>
  Claim C3, as amended.  For every row the parser accepts, the identifier is the value date
  formatted with \<open>%Y%m%d\<close> followed by the SHA-1 hex digest of the UTF-8 bytes of the
  whitespace-normalized purpose text (as it is, not trimmed), the string form of the
  amount and the currency symbol, joined by single spaces.  Consequently two accepted rows
  with the same value date, the same normalized purpose text, the same amount and the same
  currency symbol have the same identifier.
\<close>

theorem identifier_formula:
  assumes "parse_record lib line = Inr (st, ws)"
    and "line Wertstellungstag = Some w" and "parse_datetime lib w = Inr value_date"
    and "line Verwendungszweck = Some v"
    and "line Umsatz = Some u" and "parse_decimal lib u = Inr amt"
    and "line Waehrung = Some symbol"
  shows "line_id st =
           Some (strftime lib value_date ''%Y%m%d''
                 @ sha1_hexdigest (utf8_encode
                     (remove_superfluous_reference_whitespace v @ '' '' @ decimal_str lib amt
                      @ '' '' @ symbol)))
         \<and> (\<forall>line' st' ws' w' v' u'.
               parse_record lib line' = Inr (st', ws')
               \<and> line' Wertstellungstag = Some w' \<and> parse_datetime lib w' = Inr value_date
               \<and> line' Verwendungszweck = Some v'
               \<and> remove_superfluous_reference_whitespace v'
                   = remove_superfluous_reference_whitespace v
               \<and> line' Umsatz = Some u' \<and> parse_decimal lib u' = Inr amt
               \<and> line' Waehrung = Some symbol
             \<longrightarrow> line_id st' = line_id st)"
proof -
  have formula: "line_id st' =
           Some (strftime lib vd ''%Y%m%d''
                 @ sha1_hexdigest (utf8_encode
                     (remove_superfluous_reference_whitespace v' @ '' '' @ decimal_str lib a
                      @ '' '' @ sym)))"
    if "parse_record lib line' = Inr (st', ws')"
      and "line' Wertstellungstag = Some w'" and "parse_datetime lib w' = Inr vd"
      and "line' Verwendungszweck = Some v'"
      and "line' Umsatz = Some u'" and "parse_decimal lib u' = Inr a"
      and "line' Waehrung = Some sym"
    for line' st' ws' w' vd v' u' a sym
  proof -
    from that(1) obtain bd0 w0 vd0 v0 u0 a0 sym0 where
      c: "line' Wertstellungstag = Some w0" "parse_datetime lib w0 = Inr vd0"
         "line' Verwendungszweck = Some v0" "line' Umsatz = Some u0"
         "parse_decimal lib u0 = Inr a0" "line' Waehrung = Some sym0"
      and ap: "apply_fields lib (decoded_fields v0) a0
         (initial_line lib bd0 vd0 (remove_superfluous_reference_whitespace v0) a0 sym0)
           = Inr (st', ws')"
      by (rule parse_record_steps)
    from c that(2-7) have "vd0 = vd" "v0 = v'" "a0 = a" "sym0 = sym" by simp_all
    with apply_fields_kept(1) [OF ap] show ?thesis
      by (simp add: initial_line_def make_id_def hashed_text_def)
  qed
  show ?thesis
    using formula [OF assms] formula by (auto simp del: append_assoc)
qed

theorem identifier_formula_witness:
  "parse_record sample_library plain_row = Inr (plain_line, [])
   \<and> plain_row Wertstellungstag = Some ''01.02.2024''
   \<and> parse_datetime sample_library ''01.02.2024'' = Inr valued
   \<and> plain_row Verwendungszweck = Some '' x''
   \<and> plain_row Umsatz = Some ''0,00''
   \<and> parse_decimal sample_library ''0,00'' = Inr (Finite False 0 (- 2))
   \<and> plain_row Waehrung = Some ''EUR''
   \<and> line_id plain_line =
       Some (strftime sample_library valued ''%Y%m%d''
             @ sha1_hexdigest (utf8_encode
                 (remove_superfluous_reference_whitespace '' x'' @ '' ''
                  @ decimal_str sample_library (Finite False 0 (- 2)) @ '' '' @ ''EUR'')))"
  using identifier_formula [OF plain_row_result, of "''01.02.2024''" valued "'' x''" "''0,00''"
      "Finite False 0 (- 2)" "''EUR''"]
  by (simp add: plain_row_result plain_columns sample_dates sample_amounts
        del: append_assoc)

text \<open>
  The claim as first stated hashes the trimmed purpose text.  On the plain row, whose
  purpose text is a space followed by \<open>x\<close>, the identifier the parser computes differs from
  the one the trimmed text would give.
\<close>

theorem trimmed_memo_counterexample:
  "plain_row Verwendungszweck = Some '' x''
   \<and> parse_record sample_library plain_row = Inr (plain_line, [])
   \<and> line_id plain_line = Some ''20240201dad09afe5ca143a56a82cac68c44cee6d5ed0011''
   \<and> strftime sample_library valued ''%Y%m%d''
       @ sha1_hexdigest (utf8_encode
           (strip '' x'' @ '' '' @ decimal_str sample_library (Finite False 0 (- 2))
            @ '' '' @ ''EUR''))
       = ''2024020184ef3759bb03028114b8e44cbd3068117d36dc57''
   \<and> line_id plain_line
       \<noteq> Some (strftime sample_library valued ''%Y%m%d''
               @ sha1_hexdigest (utf8_encode
                   (strip '' x'' @ '' '' @ decimal_str sample_library (Finite False 0 (- 2))
                    @ '' '' @ ''EUR'')))"
  unfolding trimmed_digest
  by (simp add: plain_row_result plain_columns plain_line_def)

section \<open>Transaction type\<close>

text \<open>
  Lines 295 and 296 of the source reach the fallback from a statement line whose
  transaction type is \<open>None\<close>: when the library hands out statement lines without a type,
  or when a \<open>type\<close> value matches no marker, the type becomes \<open>CREDIT\<close> for an amount
  greater than zero and \<open>DEBIT\<close> otherwise.
\<close>

lemma fallback_from_unset_type:
  assumes "parse_record lib line = Inr (st, ws)"
    and "line Verwendungszweck = Some v"
    and "line Umsatz = Some u" and "parse_decimal lib u = Inr amt"
    and "StatementLine_trntype lib = None"
    and "case get_truthy (decoded_fields v) ''type'' of
           None \<Rightarrow> True | Some t \<Rightarrow> find_transaction_type t = None"
  shows "trntype st = Some (if decimal_gt_zero amt = Inr True then ''CREDIT'' else ''DEBIT'')"
proof -
  from assms(1) obtain bd vd v' u' amt' symbol where
    c: "line Verwendungszweck = Some v'" "line Umsatz = Some u'" "parse_decimal lib u' = Inr amt'"
    and ap: "apply_fields lib (decoded_fields v') amt'
       (initial_line lib bd vd (remove_superfluous_reference_whitespace v') amt' symbol)
         = Inr (st, ws)"
    by (rule parse_record_steps)
  from c assms(2-4) have e: "v' = v" "amt' = amt" by simp_all
  have "case get_truthy (decoded_fields v) ''type'' of
          None \<Rightarrow> trntype (initial_line lib bd vd (remove_superfluous_reference_whitespace v)
                             amt symbol) = None
        | Some t \<Rightarrow> find_transaction_type t = None"
    using assms(5,6) by (simp add: initial_line_def split: option.splits)
  from apply_fields_trntype [OF ap [unfolded e] this] show ?thesis .
qed

text \<open>
  The library, however, hands out statement lines that already carry a transaction type
  (the class default of \<open>StatementLine\<close>), and the test \<open>statement_line.trntype is None\<close>
  then fails for every row without a \<open>type\<close> field: such a row keeps the type it was
  constructed with, whatever its amount.
\<close>

lemma trntype_keeps_library_default:
  assumes "parse_record lib line = Inr (st, ws)"
    and "line Verwendungszweck = Some v"
    and "get_truthy (decoded_fields v) ''type'' = None"
    and "StatementLine_trntype lib = Some t"
  shows "trntype st = Some t"
proof -
  from assms(1) obtain bd vd v' amt symbol where
    c: "line Verwendungszweck = Some v'"
    and ap: "apply_fields lib (decoded_fields v') amt
       (initial_line lib bd vd (remove_superfluous_reference_whitespace v') amt symbol)
         = Inr (st, ws)"
    by (rule parse_record_steps)
  from c assms(2) have e: "v' = v" by simp
  from ap obtain s1 w1 s2 w2 s3 where
    a: "set_bank_account lib (decoded_fields v') (set_memo (decoded_fields v')
          (initial_line lib bd vd (remove_superfluous_reference_whitespace v') amt symbol))
          = Inr (s1, w1)"
    and b: "set_date_user lib (decoded_fields v') (set_check_no (decoded_fields v') s1)
          = Inr (s2, w2)"
    and t: "set_trntype (decoded_fields v') amt s2 = Inr s3"
    and d: "st = set_payee (decoded_fields v') s3"
    by (rule apply_fields_steps)
  have "trntype s2 = Some t"
    using set_bank_account_frame(8) [OF a] assms(4)
    by (simp add: set_date_user_eq [OF b] set_check_no_eq set_memo_eq initial_line_def)
  with t assms(3) have "trntype s3 = Some t"
    by (auto simp: set_trntype_def e)
  then show ?thesis by (simp add: d set_payee_eq)
qed

text \<open>
  Claim C9 (a row whose decoded fields hold no recognized \<open>type\<close> value is classified
  \<open>CREDIT\<close> when its amount is greater than zero and \<open>DEBIT\<close> otherwise, zero included)
  does not hold of the code.  The plain row has no \<open>type\<close> field and the amount 0,00, which
  is not greater than zero; the parser accepts it and classifies it \<open>CHECK\<close>, the type the
  library constructed the statement line with, not \<open>DEBIT\<close>.
\<close>

theorem type_less_row_keeps_check:
  "StatementLine_trntype sample_library = Some ''CHECK''
   \<and> plain_row Verwendungszweck = Some '' x''
   \<and> get_truthy (decoded_fields '' x'') ''type'' = None
   \<and> plain_row Umsatz = Some ''0,00''
   \<and> parse_decimal sample_library ''0,00'' = Inr (Finite False 0 (- 2))
   \<and> decimal_gt_zero (Finite False 0 (- 2)) = Inr False
   \<and> parse_record sample_library plain_row = Inr (plain_line, [])
   \<and> trntype plain_line = Some ''CHECK''
   \<and> trntype plain_line \<noteq> Some ''DEBIT''"
  by (simp add: plain_row_result plain_columns sample_amounts plain_lookups sample_trntype
        plain_line_def)

section \<open>Field-level failures\<close>

lemma set_bank_account_total:
  assumes "raises_as_documented lib"
  shows "\<exists>s w. set_bank_account lib f st = Inr (s, w)"
proof -
  have i: "schwifty_IBAN lib x = Inl e \<Longrightarrow> e = SchwiftyException" for x e
    using assms by (simp add: raises_as_documented_def)
  have b: "schwifty_BIC lib x = Inl e \<Longrightarrow> e = SchwiftyException" for x e
    using assms by (simp add: raises_as_documented_def)
  have "\<exists>r. decode_bic lib f = Inr r"
    by (auto simp: decode_bic_def Let_def split: option.splits sum.splits dest: b)
  then show ?thesis
    by (auto simp: set_bank_account_def Let_def split: option.splits sum.splits prod.splits
          dest: i)
qed

lemma set_bank_account_failed:
  assumes "get_truthy f IBAN = Some i"
    and "schwifty_IBAN lib (replace_char CHR '' '' '''' i) = Inl SchwiftyException"
  shows "set_bank_account lib f st = Inr (st, [IbanWarning (replace_char CHR '' '' '''' i)])"
  using assms by (simp add: set_bank_account_def)

lemma set_date_user_total:
  assumes "raises_as_documented lib"
  shows "\<exists>s w. set_date_user lib f st = Inr (s, w)"
proof -
  have "strptime lib x y = Inl e \<Longrightarrow> e = ValueError" for x y e
    using assms by (simp add: raises_as_documented_def)
  then show ?thesis
    by (auto simp: set_date_user_def split: option.splits sum.splits)
qed

lemma set_date_user_failed:
  assumes "get_truthy f ''card_payment_datetime'' = Some t"
    and "strptime lib t ''%d.%m.%Y %H.%M.%S'' = Inl ValueError"
  shows "set_date_user lib f st = Inr (st, [DatetimeWarning t])"
  using assms by (simp add: set_date_user_def)

lemma set_trntype_total: "amt \<noteq> NaN \<Longrightarrow> \<exists>s. set_trntype f amt st = Inr s"
  by (cases amt) (auto simp: set_trntype_def Let_def split: option.splits)

lemma apply_fields_total:
  assumes "raises_as_documented lib" and "amt \<noteq> NaN"
  shows "\<exists>st' ws. apply_fields lib f amt st = Inr (st', ws)"
proof -
  from set_bank_account_total [OF assms(1)]
  obtain s1 w1 where a: "set_bank_account lib f (set_memo f st) = Inr (s1, w1)" by blast
  from set_date_user_total [OF assms(1)]
  obtain s2 w2 where b: "set_date_user lib f (set_check_no f s1) = Inr (s2, w2)" by blast
  from set_trntype_total [OF assms(2)]
  obtain s3 where c: "set_trntype f amt s2 = Inr s3" by blast
  show ?thesis by (simp add: apply_fields_def a b c)
qed

lemma apply_fields_iban_failed:
  assumes "apply_fields lib f amt st = Inr (st', ws)"
    and "get_truthy f IBAN = Some i"
    and "schwifty_IBAN lib (replace_char CHR '' '' '''' i) = Inl SchwiftyException"
  shows "bank_account_to st' = bank_account_to st"
    and "IbanWarning (replace_char CHR '' '' '''' i) \<in> set ws"
proof -
  from assms(1) obtain s1 w1 s2 w2 s3 where
    a: "set_bank_account lib f (set_memo f st) = Inr (s1, w1)"
    and b: "set_date_user lib f (set_check_no f s1) = Inr (s2, w2)"
    and c: "set_trntype f amt s2 = Inr s3" and d: "st' = set_payee f s3"
    and w: "ws = w1 @ w2"
    by (rule apply_fields_steps)
  from a set_bank_account_failed [OF assms(2,3), of "set_memo f st"]
  have s1: "s1 = set_memo f st" and w1: "w1 = [IbanWarning (replace_char CHR '' '' '''' i)]"
    by simp_all
  show "IbanWarning (replace_char CHR '' '' '''' i) \<in> set ws" by (simp add: w w1)
  have "bank_account_to st' = bank_account_to s2"
    using set_trntype_frame(8) [OF c] by (simp add: d set_payee_eq)
  also have "\<dots> = bank_account_to st"
    by (simp add: set_date_user_eq [OF b] set_check_no_eq s1 set_memo_eq)
  finally show "bank_account_to st' = bank_account_to st" .
qed

lemma apply_fields_datetime_failed:
  assumes "apply_fields lib f amt st = Inr (st', ws)"
    and "get_truthy f ''card_payment_datetime'' = Some t"
    and "strptime lib t ''%d.%m.%Y %H.%M.%S'' = Inl ValueError"
  shows "date_user st' = date_user st" and "DatetimeWarning t \<in> set ws"
proof -
  from assms(1) obtain s1 w1 s2 w2 s3 where
    a: "set_bank_account lib f (set_memo f st) = Inr (s1, w1)"
    and b: "set_date_user lib f (set_check_no f s1) = Inr (s2, w2)"
    and c: "set_trntype f amt s2 = Inr s3" and d: "st' = set_payee f s3"
    and w: "ws = w1 @ w2"
    by (rule apply_fields_steps)
  from b set_date_user_failed [OF assms(2,3), of "set_check_no f s1"]
  have "w2 = [DatetimeWarning t]" by simp
  then show "DatetimeWarning t \<in> set ws" by (simp add: w)
  show "date_user st' = date_user st"
    using apply_fields_date_user [OF assms(1)] assms(2,3) by simp
qed

text \<open>
  Claim C6.  Let the library raise as documented, let the date columns and the amount
  column of a row decode, and let the amount not be a NaN (on which the comparison with
  zero raises).  Then the parser returns a record for the row, with its date, amount,
  currency and identifier.  If the IBAN field fails to decode, the record has no
  counterparty account and a warning with the offending text is logged; if the
  card-payment datetime fails to parse, the user-facing date stays the booking date and a
  warning is logged.
\<close>

theorem field_failures_are_logged:
  assumes "raises_as_documented lib"
    and "line Buchungstag = Some b" and "parse_datetime lib b = Inr booking_date"
    and "line Wertstellungstag = Some w" and "parse_datetime lib w = Inr value_date"
    and "line Verwendungszweck = Some v"
    and "line Umsatz = Some u" and "parse_decimal lib u = Inr amt" and "amt \<noteq> NaN"
    and "line Waehrung = Some symbol"
  shows "\<exists>st ws. parse_record lib line = Inr (st, ws)
           \<and> date st = Some value_date \<and> amount st = Some amt \<and> currency st = Some symbol
           \<and> line_id st
               = Some (make_id lib value_date (remove_superfluous_reference_whitespace v)
                         amt symbol)
           \<and> (\<forall>i. get_truthy (decoded_fields v) IBAN = Some i
                    \<and> schwifty_IBAN lib (replace_char CHR '' '' '''' i) = Inl SchwiftyException
                  \<longrightarrow> bank_account_to st = None
                      \<and> IbanWarning (replace_char CHR '' '' '''' i) \<in> set ws)
           \<and> (\<forall>t. get_truthy (decoded_fields v) ''card_payment_datetime'' = Some t
                    \<and> strptime lib t ''%d.%m.%Y %H.%M.%S'' = Inl ValueError
                  \<longrightarrow> date_user st = Some booking_date \<and> DatetimeWarning t \<in> set ws)"
proof -
  let ?st0 = "initial_line lib booking_date value_date
                (remove_superfluous_reference_whitespace v) amt symbol"
  from apply_fields_total [OF assms(1,9)]
  obtain st ws where ap: "apply_fields lib (decoded_fields v) amt ?st0 = Inr (st, ws)" by blast
  have pr: "parse_record lib line = Inr (st, ws)"
    using assms(2-8,10) ap by (simp add: parse_record_def getitem_def decoded_fields_def)
  have kept: "date st = Some value_date" "amount st = Some amt" "currency st = Some symbol"
    "line_id st = Some (make_id lib value_date (remove_superfluous_reference_whitespace v)
                          amt symbol)"
    using apply_fields_kept [OF ap] by (simp_all add: initial_line_def)
  have iban: "bank_account_to st = None
              \<and> IbanWarning (replace_char CHR '' '' '''' i) \<in> set ws"
    if "get_truthy (decoded_fields v) IBAN = Some i"
      and "schwifty_IBAN lib (replace_char CHR '' '' '''' i) = Inl SchwiftyException" for i
    using apply_fields_iban_failed [OF ap that] by (simp add: initial_line_def)
  have dt: "date_user st = Some booking_date \<and> DatetimeWarning t \<in> set ws"
    if "get_truthy (decoded_fields v) ''card_payment_datetime'' = Some t"
      and "strptime lib t ''%d.%m.%Y %H.%M.%S'' = Inl ValueError" for t
    using apply_fields_datetime_failed [OF ap that] by (simp add: initial_line_def)
  from pr kept iban dt show ?thesis by blast
qed

theorem field_failures_are_logged_witness:
  "raises_as_documented sample_library
   \<and> failing_row Verwendungszweck = Some failing_reference
   \<and> get_truthy (decoded_fields failing_reference) IBAN = Some ''XX''
   \<and> schwifty_IBAN sample_library (replace_char CHR '' '' '''' ''XX'') = Inl SchwiftyException
   \<and> get_truthy (decoded_fields failing_reference) ''card_payment_datetime''
       = Some ''99.99.2024 12.34.56''
   \<and> strptime sample_library ''99.99.2024 12.34.56'' ''%d.%m.%Y %H.%M.%S'' = Inl ValueError
   \<and> parse_record sample_library failing_row
       = Inr (failing_line, [IbanWarning ''XX'', DatetimeWarning ''99.99.2024 12.34.56''])
   \<and> bank_account_to failing_line = None
   \<and> date_user failing_line = Some booked"
proof -
  have nan: "Finite True 100 (- 2) \<noteq> NaN" by simp
  from field_failures_are_logged [OF sample_raises failing_columns(1) sample_dates(1)
      failing_columns(2) sample_dates(2) failing_columns(3) failing_columns(4)
      sample_amounts(1) nan failing_columns(5)]
  obtain st ws where r: "parse_record sample_library failing_row = Inr (st, ws)"
    and i: "\<forall>i. get_truthy (decoded_fields failing_reference) IBAN = Some i
                \<and> schwifty_IBAN sample_library (replace_char CHR '' '' '''' i)
                    = Inl SchwiftyException
              \<longrightarrow> bank_account_to st = None
                  \<and> IbanWarning (replace_char CHR '' '' '''' i) \<in> set ws"
    and t: "\<forall>t. get_truthy (decoded_fields failing_reference) ''card_payment_datetime'' = Some t
                \<and> strptime sample_library t ''%d.%m.%Y %H.%M.%S'' = Inl ValueError
              \<longrightarrow> date_user st = Some booked \<and> DatetimeWarning t \<in> set ws"
    by blast
  from r failing_row_result have st: "st = failing_line" by simp
  from i failing_lookups(1) sample_iban_xx(1) have "bank_account_to st = None" by blast
  moreover from t failing_lookups(2) sample_dates(4) have "date_user st = Some booked" by blast
  ultimately show ?thesis
    using sample_raises failing_columns(3) failing_lookups sample_iban_xx(1) sample_dates(4)
      failing_row_result st by simp
qed

section \<open>Record splitter\<close>

lemma split_records_Cons:
  "split_records (r # rows) =
     (case r Buchungstag of
        None \<Rightarrow> ([], Some (KeyError Buchungstag))
      | Some b \<Rightarrow> (if b \<noteq> not_yet_executed then r # fst (split_records rows)
                   else fst (split_records rows),
                  snd (split_records rows)))"
  by (cases "split_records rows") (simp add: getitem_def split: option.splits)

lemma split_records_yielded:
  "r \<in> set (fst (split_records rows)) \<Longrightarrow> r Buchungstag \<noteq> Some not_yet_executed"
proof (induction rows)
  case Nil
  then show ?case by simp
next
  case (Cons r0 rows)
  show ?case
  proof (cases "r0 Buchungstag")
    case None
    with Cons.prems show ?thesis by (simp add: split_records_Cons del: split_records.simps(2))
  next
    case (Some b)
    with Cons.prems have "r = r0 \<and> b \<noteq> not_yet_executed \<or> r \<in> set (fst (split_records rows))"
      by (simp add: split_records_Cons del: split_records.simps(2) split: if_splits)
    with Some Cons.IH show ?thesis by auto
  qed
qed

lemma split_records_complete:
  "(\<And>r. r \<in> set rows \<Longrightarrow> r Buchungstag \<noteq> None) \<Longrightarrow>
   split_records rows = (filter (\<lambda>r. r Buchungstag \<noteq> Some not_yet_executed) rows, None)"
proof (induction rows)
  case Nil
  show ?case by simp
next
  case (Cons r0 rows)
  from Cons.prems [of r0] obtain b where b: "r0 Buchungstag = Some b" by auto
  have "split_records rows
          = (filter (\<lambda>r. r Buchungstag \<noteq> Some not_yet_executed) rows, None)"
    by (rule Cons.IH) (simp add: Cons.prems)
  then show ?case by (simp add: split_records_Cons b del: split_records.simps(2))
qed

text \<open>
  Claim C8.  No row that \<open>split_records\<close> yields has the not-yet-executed marker in its
  booking-date column; and when every row has a booking-date column, \<open>split_records\<close>
  yields exactly the rows whose booking-date column differs from the marker, in file
  order, and ends without an exception.
\<close>

theorem split_records_filter:
  "(\<forall>r \<in> set (fst (split_records rows)). r Buchungstag \<noteq> Some not_yet_executed)
   \<and> ((\<forall>r \<in> set rows. r Buchungstag \<noteq> None)
        \<longrightarrow> split_records rows
            = (filter (\<lambda>r. r Buchungstag \<noteq> Some not_yet_executed) rows, None))"
  using split_records_yielded [of _ rows] split_records_complete [of rows] by blast

theorem split_records_filter_witness:
  "plain_row Buchungstag = Some ''02.02.2024''
   \<and> pending_row Buchungstag = Some not_yet_executed
   \<and> card_row Buchungstag = Some ''02.02.2024''
   \<and> split_records [plain_row, pending_row, card_row] = ([plain_row, card_row], None)"
  using split_records_filter [of "[plain_row, pending_row, card_row]"]
  by (simp add: plain_columns card_columns pending_column booking_day_not_pending)

end
